theory Spec2Isabelle
  imports Complex_Main "HOL-Library.Sublist" "HOL-Library.AList"
begin

section \<open>Python values, exceptions and string operations\<close>

text \<open>
  Exceptions are values. Each constructor is one Python exception class that the code in
  scope raises or catches; the argument is the text that \<open>str(e)\<close> yields.
  \<open>OtherException\<close> stands for any further subclass of \<open>Exception\<close> that is not a
  \<open>ValueError\<close>.
\<close>

datatype pyexn =
    RuntimeError string
  | ValueError string
  | TypeError string
  | AttributeError string
  | IndexError string
  | JSONDecodeError string
  | ValidationError string
  | OtherException string

fun str_exn :: "pyexn \<Rightarrow> string" where
  "str_exn (RuntimeError m) = m"
| "str_exn (ValueError m) = m"
| "str_exn (TypeError m) = m"
| "str_exn (AttributeError m) = m"
| "str_exn (IndexError m) = m"
| "str_exn (JSONDecodeError m) = m"
| "str_exn (ValidationError m) = m"
| "str_exn (OtherException m) = m"

text \<open>
  What \<open>except ValueError\<close> catches: the class and its subclasses, which are
  \<open>json.JSONDecodeError\<close> and pydantic's \<open>ValidationError\<close> here.
\<close>

fun is_value_error :: "pyexn \<Rightarrow> bool" where
  "is_value_error (ValueError m) = True"
| "is_value_error (JSONDecodeError m) = True"
| "is_value_error (ValidationError m) = True"
| "is_value_error _ = False"

section \<open>OCR pipeline (extraction/ocr\_engine.py)\<close>

record OCRWord =
  word_text :: string
  word_confidence :: real
  bbox :: "int \<times> int \<times> int \<times> int"

record OCRResult =
  full_text :: string
  words :: "OCRWord list"
  confidence :: real
  language :: string
  engine_used :: string

text \<open>
  An OCR engine is anything with \<open>recognize(image)\<close>; a call either raises or returns
  an \<open>OCRResult\<close>. The img type is left open.
\<close>

type_synonym 'img ocr_engine = "'img \<Rightarrow> pyexn + OCRResult"

record 'img OCRPipeline =
  primary_engine :: "'img ocr_engine option"
  fallback_engine :: "'img ocr_engine option"
  ocr_confidence_threshold :: real
  ocr_primary_initialized :: bool
  ocr_fallback_initialized :: bool
  fallback_available :: bool

text \<open>\<open>OCRPipeline.__init__\<close>; the default threshold of the source is 0.5.\<close>

definition OCRPipeline_init ::
  "'img ocr_engine option \<Rightarrow> 'img ocr_engine option \<Rightarrow> real \<Rightarrow> 'img OCRPipeline" where
  "OCRPipeline_init primary fallback threshold =
     \<lparr> primary_engine = primary, fallback_engine = fallback,
       ocr_confidence_threshold = threshold,
       ocr_primary_initialized = False, ocr_fallback_initialized = False,
       fallback_available = True \<rparr>"

text \<open>
  \<open>_ensure_primary\<close>. The constructor \<open>EasyOCREngine()\<close> is a parameter: it yields an
  engine or raises (the import of the library may fail). Nothing catches that exception.
\<close>

definition ocr_ensure_primary ::
  "(pyexn + 'img ocr_engine) \<Rightarrow> 'img OCRPipeline \<Rightarrow> pyexn + 'img OCRPipeline" where
  "ocr_ensure_primary easyocr p =
     (if \<not> ocr_primary_initialized p then
        (case primary_engine p of
           None \<Rightarrow>
             (case easyocr of
                Inl e \<Rightarrow> Inl e
              | Inr eng \<Rightarrow> Inr (p\<lparr>primary_engine := Some eng, ocr_primary_initialized := True\<rparr>))
         | Some _ \<Rightarrow> Inr (p\<lparr>ocr_primary_initialized := True\<rparr>))
      else Inr p)"

text \<open>
  \<open>_ensure_fallback\<close>. Any exception of \<open>TesseractEngine()\<close> is swallowed and marks
  the fallback unavailable.
\<close>

definition ocr_ensure_fallback ::
  "(pyexn + 'img ocr_engine) \<Rightarrow> 'img OCRPipeline \<Rightarrow> 'img OCRPipeline" where
  "ocr_ensure_fallback tesseract p =
     (if \<not> ocr_fallback_initialized p then
        (case fallback_engine p of
           None \<Rightarrow>
             (case tesseract of
                Inl _ \<Rightarrow> p\<lparr>fallback_available := False, ocr_fallback_initialized := True\<rparr>
              | Inr eng \<Rightarrow> p\<lparr>fallback_engine := Some eng, ocr_fallback_initialized := True\<rparr>)
         | Some _ \<Rightarrow> p\<lparr>ocr_fallback_initialized := True\<rparr>)
      else p)"

datatype engine_role = PrimaryEngine | FallbackEngine

text \<open>
  The outcome of one call of \<open>process\<close>: what it returns or raises, the engines whose
  \<open>recognize\<close> was invoked, in order, and the pipeline with its lazily built engines.
\<close>

record 'img ocr_run =
  ocr_outcome :: "pyexn + OCRResult"
  ocr_invoked :: "engine_role list"
  ocr_pipeline :: "'img OCRPipeline"

text \<open>
  The usable fallback engine: \<open>self._fallback_available and self.fallback_engine\<close>.
\<close>

definition usable_fallback :: "'img OCRPipeline \<Rightarrow> 'img ocr_engine option" where
  "usable_fallback p = (if fallback_available p then fallback_engine p else None)"

text \<open>
  \<open>self.primary_engine.recognize(image)\<close>: on a pipeline whose engine is still
  \<open>None\<close> the attribute access raises.
\<close>

definition recognize_primary :: "'img OCRPipeline \<Rightarrow> 'img \<Rightarrow> pyexn + OCRResult" where
  "recognize_primary p img =
     (case primary_engine p of
        None \<Rightarrow> Inl (AttributeError ''NoneType object has no attribute recognize'')
      | Some eng \<Rightarrow> eng img)"

definition process ::
  "(pyexn + 'img ocr_engine) \<Rightarrow> (pyexn + 'img ocr_engine) \<Rightarrow> 'img OCRPipeline \<Rightarrow> 'img
     \<Rightarrow> 'img ocr_run" where
  "process easyocr tesseract p0 img =
     (case ocr_ensure_primary easyocr p0 of
        Inl e \<Rightarrow> \<lparr> ocr_outcome = Inl e, ocr_invoked = [], ocr_pipeline = p0 \<rparr>
      | Inr p1 \<Rightarrow>
          (case recognize_primary p1 img of
             Inr result \<Rightarrow>
               if confidence result \<ge> ocr_confidence_threshold p1 then
                 \<lparr> ocr_outcome = Inr result, ocr_invoked = [PrimaryEngine], ocr_pipeline = p1 \<rparr>
               else
                 (let p2 = ocr_ensure_fallback tesseract p1 in
                  case usable_fallback p2 of
                    Some fb \<Rightarrow>
                      (case fb img of
                         Inr fallback_result \<Rightarrow>
                           \<lparr> ocr_outcome =
                               (if confidence fallback_result > confidence result
                                then Inr fallback_result else Inr result),
                             ocr_invoked = [PrimaryEngine, FallbackEngine], ocr_pipeline = p2 \<rparr>
                       | Inl _ \<Rightarrow>
                           \<lparr> ocr_outcome = Inr result,
                             ocr_invoked = [PrimaryEngine, FallbackEngine], ocr_pipeline = p2 \<rparr>)
                  | None \<Rightarrow>
                      \<lparr> ocr_outcome = Inr result, ocr_invoked = [PrimaryEngine],
                        ocr_pipeline = p2 \<rparr>)
           | Inl e \<Rightarrow>
               (let p2 = ocr_ensure_fallback tesseract p1 in
                case usable_fallback p2 of
                  Some fb \<Rightarrow>
                    (case fb img of
                       Inr fallback_result \<Rightarrow>
                         \<lparr> ocr_outcome = Inr fallback_result,
                           ocr_invoked = [PrimaryEngine, FallbackEngine], ocr_pipeline = p2 \<rparr>
                     | Inl fallback_error \<Rightarrow>
                         \<lparr> ocr_outcome = Inl (RuntimeError
                             (''Both OCR engines failed. Primary: '' @ str_exn e
                                @ '', Fallback: '' @ str_exn fallback_error)),
                           ocr_invoked = [PrimaryEngine, FallbackEngine], ocr_pipeline = p2 \<rparr>)
                | None \<Rightarrow>
                    \<lparr> ocr_outcome = Inl (RuntimeError (''OCR failed: '' @ str_exn e)),
                      ocr_invoked = [PrimaryEngine], ocr_pipeline = p2 \<rparr>)))"

section \<open>LLM pipeline (extraction/llm\_extractor.py)\<close>

text \<open>
  Field values have Python type \<open>Any\<close>; they come out of \<open>json.loads\<close>, so they are
  the JSON values. Dictionaries are association lists in insertion order.
\<close>

datatype pyval =
    PNone
  | PBool bool
  | PInt int
  | PFloat real
  | PStr string
  | PList "pyval list"
  | PDict "(string \<times> pyval) list"

record ExtractedField =
  field_name :: string
  field_value :: pyval
  field_confidence :: real
  source_text :: pyval

record ExtractionResult =
  document_type :: pyval
  result_fields :: "(string \<times> ExtractedField) list"
  raw_response :: string
  model_used :: string
  success :: bool
  error :: string

text \<open>
  An extractor is anything with \<open>extract(text, document_type, expected_fields)\<close>. The
  engines call a model over the network, so two calls with the same arguments need not
  agree: the first argument is the number of earlier calls of this engine in the run.
\<close>

type_synonym llm_engine =
  "nat \<Rightarrow> string \<Rightarrow> string \<Rightarrow> string list \<Rightarrow> pyexn + ExtractionResult"

record LLMPipeline =
  primary :: "llm_engine option"
  fallback :: "llm_engine option"
  use_fallback_on_low_confidence :: bool
  confidence_threshold :: real
  primary_initialized :: bool
  fallback_initialized :: bool

text \<open>\<open>LLMPipeline.__init__\<close>.\<close>

definition LLMPipeline_init ::
  "llm_engine option \<Rightarrow> llm_engine option \<Rightarrow> bool \<Rightarrow> real \<Rightarrow> LLMPipeline" where
  "LLMPipeline_init prim fb use_fb threshold =
     \<lparr> primary = prim, fallback = fb, use_fallback_on_low_confidence = use_fb,
       confidence_threshold = threshold,
       primary_initialized = False, fallback_initialized = False \<rparr>"

text \<open>\<open>_ensure_primary\<close>; the constructor \<open>OllamaExtractor()\<close> is a parameter.\<close>

definition ensure_primary :: "(pyexn + llm_engine) \<Rightarrow> LLMPipeline \<Rightarrow> pyexn + LLMPipeline" where
  "ensure_primary ollama p =
     (if \<not> primary_initialized p then
        (case primary p of
           None \<Rightarrow>
             (case ollama of
                Inl e \<Rightarrow> Inl e
              | Inr eng \<Rightarrow> Inr (p\<lparr>primary := Some eng, primary_initialized := True\<rparr>))
         | Some _ \<Rightarrow> Inr (p\<lparr>primary_initialized := True\<rparr>))
      else Inr p)"

text \<open>
  \<open>_ensure_fallback\<close>; the constructor \<open>GeminiExtractor()\<close> is a parameter. A
  \<open>ValueError\<close> (no API key) or an exception of one of its subclasses is caught; any
  other exception leaves the method before the flag is set.
\<close>

definition ensure_fallback :: "(pyexn + llm_engine) \<Rightarrow> LLMPipeline \<Rightarrow> pyexn + LLMPipeline" where
  "ensure_fallback gemini p =
     (if \<not> fallback_initialized p then
        (case fallback p of
           None \<Rightarrow>
             (case gemini of
                Inl e \<Rightarrow>
                  if is_value_error e
                  then Inr (p\<lparr>fallback := None, fallback_initialized := True\<rparr>)
                  else Inl e
              | Inr eng \<Rightarrow> Inr (p\<lparr>fallback := Some eng, fallback_initialized := True\<rparr>))
         | Some _ \<Rightarrow> Inr (p\<lparr>fallback_initialized := True\<rparr>))
      else Inr p)"

text \<open>\<open>_average_confidence\<close>.\<close>

definition average_confidence :: "ExtractionResult \<Rightarrow> real" where
  "average_confidence result =
     (if result_fields result = [] then 0
      else sum_list (map (\<lambda>(k, f). field_confidence f) (result_fields result))
             / real (length (result_fields result)))"

record llm_run =
  llm_outcome :: "pyexn + ExtractionResult"
  llm_invoked :: "engine_role list"
  llm_pipeline :: LLMPipeline

definition extract_primary ::
  "LLMPipeline \<Rightarrow> string \<Rightarrow> string \<Rightarrow> string list \<Rightarrow> pyexn + ExtractionResult" where
  "extract_primary p text doc_type expected =
     (case primary p of
        None \<Rightarrow> Inl (AttributeError ''NoneType object has no attribute extract'')
      | Some eng \<Rightarrow> eng 0 text doc_type expected)"

text \<open>The body of the \<open>try\<close> block of \<open>LLMPipeline.extract\<close>.\<close>

definition extract_try ::
  "(pyexn + llm_engine) \<Rightarrow> LLMPipeline \<Rightarrow> string \<Rightarrow> string \<Rightarrow> string list \<Rightarrow> llm_run" where
  "extract_try gemini p1 text doc_type expected =
     (case extract_primary p1 text doc_type expected of
        Inl e \<Rightarrow> \<lparr> llm_outcome = Inl e, llm_invoked = [PrimaryEngine], llm_pipeline = p1 \<rparr>
      | Inr result \<Rightarrow>
          if success result then
            (let avg_confidence = average_confidence result in
             if avg_confidence \<ge> confidence_threshold p1 then
               \<lparr> llm_outcome = Inr result, llm_invoked = [PrimaryEngine], llm_pipeline = p1 \<rparr>
             else if use_fallback_on_low_confidence p1 then
               (case ensure_fallback gemini p1 of
                  Inl e \<Rightarrow>
                    \<lparr> llm_outcome = Inl e, llm_invoked = [PrimaryEngine], llm_pipeline = p1 \<rparr>
                | Inr p2 \<Rightarrow>
                    (case fallback p2 of
                       Some fb \<Rightarrow>
                         (case fb 0 text doc_type expected of
                            Inl e \<Rightarrow>
                              \<lparr> llm_outcome = Inl e,
                                llm_invoked = [PrimaryEngine, FallbackEngine],
                                llm_pipeline = p2 \<rparr>
                          | Inr fallback_result \<Rightarrow>
                              \<lparr> llm_outcome =
                                  (if success fallback_result
                                      \<and> average_confidence fallback_result > avg_confidence
                                   then Inr fallback_result else Inr result),
                                llm_invoked = [PrimaryEngine, FallbackEngine],
                                llm_pipeline = p2 \<rparr>)
                     | None \<Rightarrow>
                         \<lparr> llm_outcome = Inr result, llm_invoked = [PrimaryEngine],
                           llm_pipeline = p2 \<rparr>))
             else
               \<lparr> llm_outcome = Inr result, llm_invoked = [PrimaryEngine], llm_pipeline = p1 \<rparr>)
          else
            (case ensure_fallback gemini p1 of
               Inl e \<Rightarrow>
                 \<lparr> llm_outcome = Inl e, llm_invoked = [PrimaryEngine], llm_pipeline = p1 \<rparr>
             | Inr p2 \<Rightarrow>
                 (case fallback p2 of
                    Some fb \<Rightarrow>
                      \<lparr> llm_outcome = fb 0 text doc_type expected,
                        llm_invoked = [PrimaryEngine, FallbackEngine], llm_pipeline = p2 \<rparr>
                  | None \<Rightarrow>
                      \<lparr> llm_outcome = Inr result, llm_invoked = [PrimaryEngine],
                        llm_pipeline = p2 \<rparr>)))"

text \<open>
  \<open>LLMPipeline.extract\<close>: \<open>_ensure_primary\<close>, the \<open>try\<close> block, and the handler
  \<open>except Exception as e\<close>, which also sees an exception raised by the fallback engine
  inside the block and then invokes the fallback once more.
\<close>

definition LLMPipeline_extract ::
  "(pyexn + llm_engine) \<Rightarrow> (pyexn + llm_engine) \<Rightarrow> LLMPipeline
     \<Rightarrow> string \<Rightarrow> string \<Rightarrow> string list \<Rightarrow> llm_run" where
  "LLMPipeline_extract ollama gemini p0 text doc_type expected =
     (case ensure_primary ollama p0 of
        Inl e \<Rightarrow> \<lparr> llm_outcome = Inl e, llm_invoked = [], llm_pipeline = p0 \<rparr>
      | Inr p1 \<Rightarrow>
          (let body = extract_try gemini p1 text doc_type expected in
           case llm_outcome body of
             Inr _ \<Rightarrow> body
           | Inl e \<Rightarrow>
               (case ensure_fallback gemini (llm_pipeline body) of
                  Inl e' \<Rightarrow> body\<lparr>llm_outcome := Inl e'\<rparr>
                | Inr p2 \<Rightarrow>
                    (case fallback p2 of
                       Some fb \<Rightarrow>
                         \<lparr> llm_outcome =
                             fb (count_list (llm_invoked body) FallbackEngine)
                                text doc_type expected,
                           llm_invoked = llm_invoked body @ [FallbackEngine],
                           llm_pipeline = p2 \<rparr>
                     | None \<Rightarrow>
                         \<lparr> llm_outcome = Inr \<lparr> document_type = PStr doc_type, result_fields = [],
                               raw_response = [], model_used = [], success = False,
                               error = ''All extractors failed: '' @ str_exn e \<rparr>,
                           llm_invoked = llm_invoked body, llm_pipeline = p2 \<rparr>))))"

section \<open>Python strings and built-ins\<close>

text \<open>
  Python \<open>str\<close> is modelled by \<open>string\<close>. Text outside ASCII appears in its UTF-8
  encoding; case mapping, digits and white space are those of ASCII, so the model covers
  text whose cased letters, digits and blanks are ASCII (the Devanagari keywords of the
  templates have no case).
\<close>

definition ascii_lowercase :: string where
  "ascii_lowercase = ''abcdefghijklmnopqrstuvwxyz''"

definition ascii_uppercase :: string where
  "ascii_uppercase = ''ABCDEFGHIJKLMNOPQRSTUVWXYZ''"

definition to_upper :: "char \<Rightarrow> char" where
  "to_upper c =
     (case map_of (zip ascii_lowercase ascii_uppercase) c of Some u \<Rightarrow> u | None \<Rightarrow> c)"

definition to_lower :: "char \<Rightarrow> char" where
  "to_lower c =
     (case map_of (zip ascii_uppercase ascii_lowercase) c of Some u \<Rightarrow> u | None \<Rightarrow> c)"

definition is_alpha :: "char \<Rightarrow> bool" where
  "is_alpha c = (c \<in> set ascii_lowercase \<or> c \<in> set ascii_uppercase)"

definition is_digit :: "char \<Rightarrow> bool" where
  "is_digit c = (c \<in> set ''0123456789'')"

text \<open>The ASCII characters for which \<open>str.isspace\<close> holds.\<close>

definition is_space :: "char \<Rightarrow> bool" where
  "is_space c = (c \<in> set [CHR 0x09, CHR 0x0A, CHR 0x0B, CHR 0x0C, CHR 0x0D,
                            CHR 0x1C, CHR 0x1D, CHR 0x1E, CHR 0x1F, CHR '' ''])"

definition py_upper :: "string \<Rightarrow> string" where
  "py_upper s = map to_upper s"

definition py_lower :: "string \<Rightarrow> string" where
  "py_lower s = map to_lower s"

text \<open>\<open>s.strip()\<close>.\<close>

definition py_strip :: "string \<Rightarrow> string" where
  "py_strip s = rev (dropWhile is_space (rev (dropWhile is_space s)))"

text \<open>
  \<open>s.title()\<close>: a letter is upper-cased when the character before it is not a letter
  and lower-cased otherwise; the flag says whether the previous character was a letter.
\<close>

fun title_from :: "bool \<Rightarrow> string \<Rightarrow> string" where
  "title_from prev [] = []"
| "title_from prev (c # cs) =
     (if is_alpha c then (if prev then to_lower c else to_upper c) # title_from True cs
      else c # title_from False cs)"

definition py_title :: "string \<Rightarrow> string" where
  "py_title s = title_from False s"

text \<open>\<open>s.isdigit()\<close>: every character is a digit and there is at least one.\<close>

definition py_isdigit :: "string \<Rightarrow> bool" where
  "py_isdigit s = (s \<noteq> [] \<and> list_all is_digit s)"

text \<open>\<open>s.replace(c, "")\<close> for a one-character \<open>c\<close>.\<close>

definition remove_char :: "char \<Rightarrow> string \<Rightarrow> string" where
  "remove_char c s = filter (\<lambda>x. x \<noteq> c) s"

text \<open>\<open>kw in text\<close> on strings: \<open>kw\<close> occurs as a contiguous part of \<open>text\<close>.\<close>

fun contains :: "string \<Rightarrow> string \<Rightarrow> bool" where
  "contains [] kw = (kw = [])"
| "contains (c # cs) kw = (prefix kw (c # cs) \<or> contains cs kw)"

text \<open>The decimal numeral of a natural number, and \<open>str\<close> of an \<open>int\<close>.\<close>

fun str_nat :: "nat \<Rightarrow> string" where
  "str_nat n =
     (if n < 10 then [''0123456789'' ! n]
      else str_nat (n div 10) @ [''0123456789'' ! (n mod 10)])"

declare str_nat.simps [simp del]

definition str_int :: "int \<Rightarrow> string" where
  "str_int i = (if i < 0 then CHR ''-'' # str_nat (nat (- i)) else str_nat (nat i))"

text \<open>
  Built-ins of the interpreter and its library that the code calls and that are not part
  of this repository are parameters of the model:
  \<^item> \<open>json_loads\<close> is \<open>json.loads\<close>; \<open>Inl m\<close> is a \<open>JSONDecodeError\<close> with text \<open>m\<close>;
  \<^item> \<open>float_of_str\<close> is \<open>float(s)\<close> on a \<open>str\<close>; \<open>None\<close> is its \<open>ValueError\<close>;
  \<^item> \<open>repr_of\<close> is \<open>str(v)\<close> for a float, a list or a dict;
  \<^item> \<open>format_2f\<close> is \<open>format(x, ".2f")\<close>.
\<close>

record builtins =
  json_loads :: "string \<Rightarrow> string + pyval"
  float_of_str :: "string \<Rightarrow> real option"
  repr_of :: "pyval \<Rightarrow> string"
  format_2f :: "real \<Rightarrow> string"

text \<open>\<open>str(v)\<close>, which is also \<open>format(v, "")\<close> for these types.\<close>

fun py_str :: "builtins \<Rightarrow> pyval \<Rightarrow> string" where
  "py_str B PNone = ''None''"
| "py_str B (PBool b) = (if b then ''True'' else ''False'')"
| "py_str B (PInt i) = str_int i"
| "py_str B (PStr s) = s"
| "py_str B v = repr_of B v"

text \<open>The truth value of an object in a condition.\<close>

fun truthy :: "pyval \<Rightarrow> bool" where
  "truthy PNone = False"
| "truthy (PBool b) = b"
| "truthy (PInt i) = (i \<noteq> 0)"
| "truthy (PFloat r) = (r \<noteq> 0)"
| "truthy (PStr s) = (s \<noteq> [])"
| "truthy (PList xs) = (xs \<noteq> [])"
| "truthy (PDict kvs) = (kvs \<noteq> [])"

text \<open>\<open>float(v)\<close>.\<close>

fun py_float :: "builtins \<Rightarrow> pyval \<Rightarrow> pyexn + real" where
  "py_float B (PInt i) = Inr (real_of_int i)"
| "py_float B (PFloat r) = Inr r"
| "py_float B (PBool b) = Inr (if b then 1 else 0)"
| "py_float B (PStr s) =
     (case float_of_str B s of
        Some r \<Rightarrow> Inr r
      | None \<Rightarrow>
          Inl (ValueError (''could not convert string to float: '' @ [CHR 0x27] @ s
                             @ [CHR 0x27])))"
| "py_float B v =
     Inl (TypeError ''float() argument must be a string or a real number'')"

text \<open>A \<open>dict\<close> with string keys, in insertion order; \<open>d[k] = v\<close> is \<open>AList.update\<close>.\<close>

type_synonym 'v pydict = "(string \<times> 'v) list"

text \<open>\<open>d.get(k, default)\<close>.\<close>

definition dict_get :: "'v pydict \<Rightarrow> string \<Rightarrow> 'v \<Rightarrow> 'v" where
  "dict_get d k dflt = (case map_of d k of Some v \<Rightarrow> v | None \<Rightarrow> dflt)"

section \<open>Example inputs\<close>

text \<open>Concrete engine results, used to run the pipelines on explicit inputs.\<close>

definition example_ocr :: "string \<Rightarrow> real \<Rightarrow> OCRResult" where
  "example_ocr eng c =
     \<lparr> full_text = ''UAN 100200300400'', words = [], confidence = c, language = ''en'',
       engine_used = eng \<rparr>"

definition example_result :: "bool \<Rightarrow> real \<Rightarrow> ExtractionResult" where
  "example_result ok c =
     \<lparr> document_type = PStr ''id_document'',
       result_fields = [(''full_name'', \<lparr> field_name = ''full_name'', field_value = PStr ''A'',
                          field_confidence = c, source_text = PStr [] \<rparr>)],
       raw_response = [], model_used = [], success = ok, error = [] \<rparr>"

text \<open>
  Fallback engines whose first call raises and whose later calls return a successful
  result: one with mean confidence 1/10, one with mean confidence 1/2.
\<close>

definition retrying_fallback :: llm_engine where
  "retrying_fallback n text doc_type expected =
     (if n = 0 then Inl (OtherException ''deadline exceeded'')
      else Inr (example_result True (1/10)))"

definition retrying_tie :: llm_engine where
  "retrying_tie n text doc_type expected =
     (if n = 0 then Inl (OtherException ''deadline exceeded'')
      else Inr ((example_result True (1/2))\<lparr>model_used := ''gemini/gemini-1.5-flash''\<rparr>))"

section \<open>Templates (templates/*.py)\<close>

datatype DocumentCategory =
  TRANSCRIPT | ID_DOCUMENT | CERTIFICATE | RECOMMENDATION | ESSAY | UNKNOWN_CATEGORY

fun category_value :: "DocumentCategory \<Rightarrow> string" where
  "category_value TRANSCRIPT = ''transcript''"
| "category_value ID_DOCUMENT = ''id_document''"
| "category_value CERTIFICATE = ''certificate''"
| "category_value RECOMMENDATION = ''recommendation''"
| "category_value ESSAY = ''essay''"
| "category_value UNKNOWN_CATEGORY = ''unknown''"

record FieldDefinition =
  name :: string
  display_name :: string
  field_type :: string
  required :: bool
  validation_pattern :: "string option"
  description :: string

definition FD :: "string \<Rightarrow> string \<Rightarrow> string \<Rightarrow> bool \<Rightarrow> string \<Rightarrow> FieldDefinition" where
  "FD n d t r descr =
     \<lparr> name = n, display_name = d, field_type = t, required = r,
       validation_pattern = None, description = descr \<rparr>"

text \<open>The eight subclasses of \<open>BaseTemplate\<close>. None of them overrides \<open>classify\<close> or
  \<open>validate\<close>; \<open>VoterIDTemplate\<close> and \<open>DrivingLicenseTemplate\<close> inherit
  \<open>post_process\<close> as well.\<close>

datatype template =
    UANCardTemplate
  | AadhaarCardTemplate
  | PANCardTemplate
  | VoterIDTemplate
  | DrivingLicenseTemplate
  | TranscriptTemplate
  | IDDocumentTemplate
  | CertificateTemplate

fun category :: "template \<Rightarrow> DocumentCategory" where
  "category TranscriptTemplate = TRANSCRIPT"
| "category CertificateTemplate = CERTIFICATE"
| "category _ = ID_DOCUMENT"

primrec field_definitions :: "template \<Rightarrow> FieldDefinition list" where
  "field_definitions AadhaarCardTemplate =
     [FD ''full_name'' ''Full Name'' ''string'' True [],
      FD ''aadhaar_number'' ''Aadhaar Number'' ''string'' True
         ''12-digit Aadhaar number (XXXX XXXX XXXX)'',
      FD ''date_of_birth'' ''Date of Birth'' ''date'' True [],
      FD ''gender'' ''Gender'' ''string'' False [],
      FD ''address'' ''Address'' ''string'' False [],
      FD ''pincode'' ''PIN Code'' ''string'' False [],
      FD ''vid'' ''Virtual ID (VID)'' ''string'' False []]"
| "field_definitions PANCardTemplate =
     [FD ''full_name'' ''Full Name'' ''string'' True [],
      FD ''pan_number'' ''PAN Number'' ''string'' True ''10-character PAN (e.g., ABCDE1234F)'',
      FD ''fathers_name'' ''Father's Name'' ''string'' False [],
      FD ''date_of_birth'' ''Date of Birth'' ''date'' True [],
      FD ''signature_name'' ''Name on Signature'' ''string'' False []]"
| "field_definitions UANCardTemplate =
     [FD ''member_name'' ''Member Name'' ''string'' True ''Name of the member/employee'',
      FD ''uan_number'' ''UAN Number'' ''string'' True ''12-digit Universal Account Number'',
      FD ''date_of_birth'' ''Date of Birth'' ''date'' True [],
      FD ''gender'' ''Gender'' ''string'' False [],
      FD ''fathers_name'' ''Father's/Husband's Name'' ''string'' False [],
      FD ''aadhaar_verified'' ''Aadhaar Verified'' ''string'' False [],
      FD ''pan_verified'' ''PAN Verified'' ''string'' False [],
      FD ''bank_verified'' ''Bank Verified'' ''string'' False [],
      FD ''employer_name'' ''Employer Name'' ''string'' False [],
      FD ''establishment_id'' ''Establishment ID'' ''string'' False [],
      FD ''address'' ''Address'' ''string'' False []]"
| "field_definitions VoterIDTemplate =
     [FD ''elector_name'' ''Elector's Name'' ''string'' True [],
      FD ''epic_number'' ''EPIC Number'' ''string'' True ''Voter ID number'',
      FD ''fathers_name'' ''Father's/Husband's Name'' ''string'' False [],
      FD ''date_of_birth'' ''Date of Birth'' ''date'' False [],
      FD ''age'' ''Age'' ''number'' False [],
      FD ''gender'' ''Gender'' ''string'' False [],
      FD ''address'' ''Address'' ''string'' False [],
      FD ''polling_station'' ''Polling Station'' ''string'' False [],
      FD ''constituency'' ''Assembly Constituency'' ''string'' False []]"
| "field_definitions DrivingLicenseTemplate =
     [FD ''holder_name'' ''Name of Holder'' ''string'' True [],
      FD ''license_number'' ''License Number'' ''string'' True [],
      FD ''date_of_birth'' ''Date of Birth'' ''date'' True [],
      FD ''blood_group'' ''Blood Group'' ''string'' False [],
      FD ''fathers_name'' ''Father's/Husband's Name'' ''string'' False [],
      FD ''address'' ''Address'' ''string'' False [],
      FD ''issue_date'' ''Date of Issue'' ''date'' False [],
      FD ''valid_till'' ''Valid Till'' ''date'' False [],
      FD ''vehicle_classes'' ''Vehicle Class(es)'' ''string'' False ''e.g., LMV, MCWG'',
      FD ''issuing_authority'' ''Issuing Authority (RTO)'' ''string'' False []]"
| "field_definitions TranscriptTemplate =
     [FD ''student_name'' ''Student Name'' ''string'' True ''Full name of the student'',
      FD ''student_id'' ''Student ID'' ''string'' False ''Student identification number'',
      FD ''institution_name'' ''Institution Name'' ''string'' True
         ''Name of the school/university'',
      FD ''date_of_birth'' ''Date of Birth'' ''date'' False [],
      FD ''graduation_date'' ''Graduation Date'' ''date'' False [],
      FD ''gpa'' ''GPA'' ''number'' False ''Grade Point Average'',
      FD ''gpa_scale'' ''GPA Scale'' ''string'' False ''GPA scale (e.g., 4.0, 10.0)'',
      FD ''class_rank'' ''Class Rank'' ''string'' False [],
      FD ''total_credits'' ''Total Credits'' ''number'' False [],
      FD ''courses'' ''Courses'' ''array'' False ''List of courses with grades'',
      FD ''degree_type'' ''Degree Type'' ''string'' False
         ''Type of degree (e.g., High School Diploma, Bachelor's)'']"
| "field_definitions IDDocumentTemplate =
     [FD ''full_name'' ''Full Name'' ''string'' True [],
      FD ''first_name'' ''First Name'' ''string'' False [],
      FD ''last_name'' ''Last Name'' ''string'' False [],
      FD ''date_of_birth'' ''Date of Birth'' ''date'' True [],
      FD ''document_number'' ''Document Number'' ''string'' True
         ''ID number, passport number, etc.'',
      FD ''document_type'' ''Document Type'' ''string'' False
         ''Passport, Driver's License, National ID, etc.'',
      FD ''issue_date'' ''Issue Date'' ''date'' False [],
      FD ''expiry_date'' ''Expiry Date'' ''date'' False [],
      FD ''nationality'' ''Nationality'' ''string'' False [],
      FD ''gender'' ''Gender'' ''string'' False [],
      FD ''address'' ''Address'' ''string'' False [],
      FD ''place_of_birth'' ''Place of Birth'' ''string'' False [],
      FD ''issuing_authority'' ''Issuing Authority'' ''string'' False []]"
| "field_definitions CertificateTemplate =
     [FD ''recipient_name'' ''Recipient Name'' ''string'' True [],
      FD ''certificate_title'' ''Certificate Title'' ''string'' True
         ''Title or type of certificate'',
      FD ''issuing_organization'' ''Issuing Organization'' ''string'' True [],
      FD ''issue_date'' ''Issue Date'' ''date'' False [],
      FD ''expiry_date'' ''Expiry Date'' ''date'' False [],
      FD ''certificate_id'' ''Certificate ID'' ''string'' False
         ''Certificate number or credential ID'',
      FD ''achievement_description'' ''Achievement Description'' ''string'' False [],
      FD ''course_name'' ''Course/Program Name'' ''string'' False [],
      FD ''grade_or_score'' ''Grade/Score'' ''string'' False [],
      FD ''duration'' ''Duration'' ''string'' False
         ''Duration of course or validity period'',
      FD ''signatories'' ''Signatories'' ''array'' False
         ''Names of people who signed the certificate'']"

definition field_names :: "template \<Rightarrow> string list" where
  "field_names t = map name (field_definitions t)"

definition required_fields :: "template \<Rightarrow> string list" where
  "required_fields t = map name (filter required (field_definitions t))"

text \<open>The Devanagari words of the sources, in UTF-8.\<close>

definition bharat_sarkar :: string where
  "bharat_sarkar = [CHR 0xE0, CHR 0xA4, CHR 0xAD, CHR 0xE0, CHR 0xA4, CHR 0xBE, CHR 0xE0,
     CHR 0xA4, CHR 0xB0, CHR 0xE0, CHR 0xA4, CHR 0xA4, CHR 0x20, CHR 0xE0, CHR 0xA4, CHR 0xB8,
     CHR 0xE0, CHR 0xA4, CHR 0xB0, CHR 0xE0, CHR 0xA4, CHR 0x95, CHR 0xE0, CHR 0xA4, CHR 0xBE,
     CHR 0xE0, CHR 0xA4, CHR 0xB0]"

definition aadhaar_hindi :: string where
  "aadhaar_hindi = [CHR 0xE0, CHR 0xA4, CHR 0x86, CHR 0xE0, CHR 0xA4, CHR 0xA7, CHR 0xE0,
     CHR 0xA4, CHR 0xBE, CHR 0xE0, CHR 0xA4, CHR 0xB0]"

definition aaykar_vibhag :: string where
  "aaykar_vibhag = [CHR 0xE0, CHR 0xA4, CHR 0x86, CHR 0xE0, CHR 0xA4, CHR 0xAF, CHR 0xE0,
     CHR 0xA4, CHR 0x95, CHR 0xE0, CHR 0xA4, CHR 0xB0, CHR 0x20, CHR 0xE0, CHR 0xA4, CHR 0xB5,
     CHR 0xE0, CHR 0xA4, CHR 0xBF, CHR 0xE0, CHR 0xA4, CHR 0xAD, CHR 0xE0, CHR 0xA4, CHR 0xBE,
     CHR 0xE0, CHR 0xA4, CHR 0x97]"

definition shram_card :: string where
  "shram_card = [CHR 0xE0, CHR 0xA4, CHR 0xB6, CHR 0xE0, CHR 0xA5, CHR 0x8D, CHR 0xE0,
     CHR 0xA4, CHR 0xB0, CHR 0xE0, CHR 0xA4, CHR 0xAE, CHR 0x20, CHR 0xE0, CHR 0xA4, CHR 0x95,
     CHR 0xE0, CHR 0xA4, CHR 0xBE, CHR 0xE0, CHR 0xA4, CHR 0xB0, CHR 0xE0, CHR 0xA5, CHR 0x8D,
     CHR 0xE0, CHR 0xA4, CHR 0xA1]"

definition nirvachan :: string where
  "nirvachan = [CHR 0xE0, CHR 0xA4, CHR 0xA8, CHR 0xE0, CHR 0xA4, CHR 0xBF, CHR 0xE0,
     CHR 0xA4, CHR 0xB0, CHR 0xE0, CHR 0xA5, CHR 0x8D, CHR 0xE0, CHR 0xA4, CHR 0xB5, CHR 0xE0,
     CHR 0xA4, CHR 0xBE, CHR 0xE0, CHR 0xA4, CHR 0x9A, CHR 0xE0, CHR 0xA4, CHR 0xA8]"

definition matdata :: string where
  "matdata = [CHR 0xE0, CHR 0xA4, CHR 0xAE, CHR 0xE0, CHR 0xA4, CHR 0xA4, CHR 0xE0, CHR 0xA4,
     CHR 0xA6, CHR 0xE0, CHR 0xA4, CHR 0xBE, CHR 0xE0, CHR 0xA4, CHR 0xA4, CHR 0xE0, CHR 0xA4,
     CHR 0xBE]"

definition purush :: string where
  "purush = [CHR 0xE0, CHR 0xA4, CHR 0xAA, CHR 0xE0, CHR 0xA5, CHR 0x81, CHR 0xE0, CHR 0xA4,
     CHR 0xB0, CHR 0xE0, CHR 0xA5, CHR 0x81, CHR 0xE0, CHR 0xA4, CHR 0xB7]"

definition mahila :: string where
  "mahila = [CHR 0xE0, CHR 0xA4, CHR 0xAE, CHR 0xE0, CHR 0xA4, CHR 0xB9, CHR 0xE0, CHR 0xA4,
     CHR 0xBF, CHR 0xE0, CHR 0xA4, CHR 0xB2, CHR 0xE0, CHR 0xA4, CHR 0xBE]"

primrec classification_keywords :: "template \<Rightarrow> string list" where
  "classification_keywords AadhaarCardTemplate =
     [''aadhaar'', ''uidai'', ''unique identification'', bharat_sarkar,
      ''government of india'', ''enrolment'', ''vid'', aadhaar_hindi]"
| "classification_keywords PANCardTemplate =
     [''permanent account number'', ''pan'', ''income tax'', aaykar_vibhag,
      ''govt. of india'', ''NSDL'', ''UTI'']"
| "classification_keywords UANCardTemplate =
     [''uan'', ''universal account number'', ''epfo'', ''epf'', ''provident fund'', ''shram'',
      ''e-shram'', ''ministry of labour'', shram_card, ''member id'', ''unorganised worker'']"
| "classification_keywords VoterIDTemplate =
     [''voter'', ''epic'', ''election commission'', ''elector'', ''polling'', nirvachan,
      matdata, ''assembly constituency'']"
| "classification_keywords DrivingLicenseTemplate =
     [''driving'', ''license'', ''licence'', ''motor vehicle'', ''rto'', ''transport'',
      ''lmv'', ''mcwg'', ''valid till'', ''blood group'']"
| "classification_keywords TranscriptTemplate =
     [''transcript'', ''academic record'', ''grade point average'', ''gpa'', ''credits'',
      ''course'', ''semester'', ''cumulative'', ''official transcript'', ''registrar'']"
| "classification_keywords IDDocumentTemplate =
     [''passport'', ''driver'', ''license'', ''identity'', ''id card'', ''national id'',
      ''date of birth'', ''dob'', ''expiry'', ''nationality'', ''place of issue'']"
| "classification_keywords CertificateTemplate =
     [''certificate'', ''certify'', ''certification'', ''awarded'', ''achievement'',
      ''completion'', ''hereby'', ''credential'', ''honor'', ''recognition'', ''conferred'']"

text \<open>\<open>BaseTemplate.classify\<close>: the share of the keywords found in the lower-cased text.\<close>

definition classify :: "template \<Rightarrow> string \<Rightarrow> real" where
  "classify t text =
     (let text_lower = py_lower text;
          matches = length (filter (contains text_lower) (classification_keywords t))
      in min (real matches / real (max (length (classification_keywords t)) 1)) 1)"

subsection \<open>Post-processing\<close>

text \<open>
  The statement \<open>if k in processed and processed[k]: body\<close>; the body gets the value
  \<open>processed[k]\<close>.
\<close>

definition if_set ::
  "string \<Rightarrow> (pyval \<Rightarrow> pyval pydict \<Rightarrow> pyexn + pyval pydict) \<Rightarrow> pyval pydict
     \<Rightarrow> pyexn + pyval pydict" where
  "if_set k body processed =
     (case map_of processed k of
        Some v \<Rightarrow> if truthy v then body v processed else Inr processed
      | None \<Rightarrow> Inr processed)"

text \<open>Sequencing: an exception of the first statement skips the second.\<close>

definition and_then :: "pyexn + 'a \<Rightarrow> ('a \<Rightarrow> pyexn + 'b) \<Rightarrow> pyexn + 'b" where
  "and_then m f = (case m of Inl e \<Rightarrow> Inl e | Inr x \<Rightarrow> f x)"

text \<open>
  \<open>processed[k] = processed[k].strip().title()\<close>: only a \<open>str\<close> has \<open>strip\<close>.
\<close>

definition title_case ::
  "string \<Rightarrow> pyval \<Rightarrow> pyval pydict \<Rightarrow> pyexn + pyval pydict" where
  "title_case k v processed =
     (case v of
        PStr s \<Rightarrow> Inr (AList.update k (PStr (py_title (py_strip s))) processed)
      | _ \<Rightarrow> Inl (AttributeError ''object has no attribute strip''))"

text \<open>
  The gender block of \<open>AadhaarCardTemplate\<close> and \<open>IDDocumentTemplate\<close>, which differ
  in the words they accept.
\<close>

definition normalize_gender ::
  "builtins \<Rightarrow> string list \<Rightarrow> string list \<Rightarrow> pyval \<Rightarrow> pyval pydict
     \<Rightarrow> pyexn + pyval pydict" where
  "normalize_gender B males females v processed =
     (let gender = py_strip (py_upper (py_str B v)) in
      if gender \<in> set males then Inr (AList.update ''gender'' (PStr ''Male'') processed)
      else if gender \<in> set females then
        Inr (AList.update ''gender'' (PStr ''Female'') processed)
      else Inr processed)"

definition format_aadhaar ::
  "builtins \<Rightarrow> pyval \<Rightarrow> pyval pydict \<Rightarrow> pyexn + pyval pydict" where
  "format_aadhaar B v processed =
     (let aadhaar = remove_char CHR ''-'' (remove_char CHR '' '' (py_str B v)) in
      if length aadhaar = 12 \<and> py_isdigit aadhaar then
        Inr (AList.update ''aadhaar_number''
               (PStr (take 4 aadhaar @ '' '' @ take 4 (drop 4 aadhaar) @ '' '' @ drop 8 aadhaar))
               processed)
      else Inr processed)"

definition format_uan ::
  "builtins \<Rightarrow> pyval \<Rightarrow> pyval pydict \<Rightarrow> pyexn + pyval pydict" where
  "format_uan B v processed =
     (let uan = remove_char CHR ''-'' (remove_char CHR '' '' (py_str B v)) in
      if py_isdigit uan then Inr (AList.update ''uan_number'' (PStr uan) processed)
      else Inr processed)"

definition upper_pan ::
  "builtins \<Rightarrow> pyval \<Rightarrow> pyval pydict \<Rightarrow> pyexn + pyval pydict" where
  "upper_pan B v processed =
     Inr (AList.update ''pan_number'' (PStr (py_strip (py_upper (py_str B v)))) processed)"

text \<open>
  The first block of \<open>IDDocumentTemplate.post_process\<close>: a missing or false
  \<open>full_name\<close> is built from \<open>first_name\<close> and \<open>last_name\<close> with an f-string.
\<close>

definition combine_names :: "builtins \<Rightarrow> pyval pydict \<Rightarrow> pyval pydict" where
  "combine_names B processed =
     (if \<not> truthy (dict_get processed ''full_name'' PNone) then
        (let first = dict_get processed ''first_name'' (PStr []);
             last = dict_get processed ''last_name'' (PStr [])
         in if truthy first \<or> truthy last then
              AList.update ''full_name''
                (PStr (py_strip (py_str B first @ '' '' @ py_str B last))) processed
            else processed)
      else processed)"

text \<open>
  \<open>re.search(r'(\<^verbatim>\<open>\d+\.?\d*\<close>)', s)\<close>: the leftmost run of digits, a following dot
  if there is one, and the digits after it.
\<close>

definition search_number :: "string \<Rightarrow> string option" where
  "search_number s =
     (let t = dropWhile (\<lambda>c. \<not> is_digit c) s in
      if t = [] then None
      else (let whole = takeWhile is_digit t; rest = dropWhile is_digit t in
            case rest of
              c # rest' \<Rightarrow>
                if c = CHR ''.'' then Some (whole @ ''.'' @ takeWhile is_digit rest')
                else Some whole
            | [] \<Rightarrow> Some whole))"

definition normalize_gpa ::
  "builtins \<Rightarrow> pyval \<Rightarrow> pyval pydict \<Rightarrow> pyexn + pyval pydict" where
  "normalize_gpa B v processed =
     (let gpa_str = py_str B v in
      case search_number gpa_str of
        Some m \<Rightarrow>
          (case float_of_str B m of
             Some r \<Rightarrow> Inr (AList.update ''gpa'' (PFloat r) processed)
           | None \<Rightarrow> Inl (ValueError (''could not convert string to float: '' @ m)))
      | None \<Rightarrow> Inr processed)"

text \<open>
  The loop over the two prefixes in \<open>CertificateTemplate.post_process\<close>: each prefix is
  tried once, in order, on the title as it stands.
\<close>

fun strip_prefixes :: "string list \<Rightarrow> string \<Rightarrow> string" where
  "strip_prefixes [] title = title"
| "strip_prefixes (p # ps) title =
     strip_prefixes ps
       (if prefix (py_lower p) (py_lower title) then drop (length p) title else title)"

definition clean_title ::
  "pyval \<Rightarrow> pyval pydict \<Rightarrow> pyexn + pyval pydict" where
  "clean_title v processed =
     (case v of
        PStr s \<Rightarrow>
          Inr (AList.update ''certificate_title''
                 (PStr (strip_prefixes [''Certificate of '', ''Certificate for ''] (py_strip s)))
                 processed)
      | _ \<Rightarrow> Inl (AttributeError ''object has no attribute strip''))"

text \<open>\<open>post_process\<close> of each template; \<open>fields.copy()\<close> is the identity on values.\<close>

fun post_process :: "builtins \<Rightarrow> template \<Rightarrow> pyval pydict \<Rightarrow> pyexn + pyval pydict" where
  "post_process B AadhaarCardTemplate flds =
     and_then (if_set ''aadhaar_number'' (format_aadhaar B) flds)
       (if_set ''gender''
          (normalize_gender B [''M'', ''MALE'', purush] [''F'', ''FEMALE'', mahila]))"
| "post_process B PANCardTemplate flds = if_set ''pan_number'' (upper_pan B) flds"
| "post_process B UANCardTemplate flds =
     and_then (if_set ''member_name'' (title_case ''member_name'') flds)
       (if_set ''uan_number'' (format_uan B))"
| "post_process B VoterIDTemplate flds = Inr flds"
| "post_process B DrivingLicenseTemplate flds = Inr flds"
| "post_process B TranscriptTemplate flds =
     and_then (if_set ''gpa'' (normalize_gpa B) flds)
       (if_set ''student_name'' (title_case ''student_name''))"
| "post_process B IDDocumentTemplate flds =
     and_then (if_set ''full_name'' (title_case ''full_name'') (combine_names B flds))
       (\<lambda>p1. and_then (if_set ''first_name'' (title_case ''first_name'') p1)
       (\<lambda>p2. and_then (if_set ''last_name'' (title_case ''last_name'') p2)
       (if_set ''gender'' (normalize_gender B [''M'', ''MALE''] [''F'', ''FEMALE'']))))"
| "post_process B CertificateTemplate flds =
     and_then (if_set ''recipient_name'' (title_case ''recipient_name'') flds)
       (if_set ''certificate_title'' clean_title)"

subsection \<open>Validation\<close>

text \<open>The two checks of \<open>BaseTemplate.validate\<close> on one field definition.\<close>

definition validate_field :: "builtins \<Rightarrow> pyval pydict \<Rightarrow> FieldDefinition \<Rightarrow> string list" where
  "validate_field B flds field_def =
     (let v = dict_get flds (name field_def) PNone;
          empty = (v = PNone \<or> v = PStr [])
      in (if required field_def \<and> empty
          then [''Required field '' @ [CHR 0x27] @ display_name field_def @ [CHR 0x27]
                  @ '' is missing'']
          else [])
       @ (if \<not> empty \<and> field_type field_def = ''number''
             \<and> float_of_str B (remove_char CHR '','' (py_str B v)) = None
          then [''Field '' @ [CHR 0x27] @ display_name field_def @ [CHR 0x27]
                  @ '' should be a number'']
          else []))"

definition validate :: "builtins \<Rightarrow> template \<Rightarrow> pyval pydict \<Rightarrow> string list" where
  "validate B t flds = concat (map (validate_field B flds) (field_definitions t))"

section \<open>Orchestrator (processor.py, output/schemas.py)\<close>

datatype DocumentStatus = PENDING | PROCESSING | COMPLETED | FAILED | REQUIRES_REVIEW

datatype DocumentTypeEnum = TRANSCRIPT_TYPE | ID_DOCUMENT_TYPE | CERTIFICATE_TYPE | UNKNOWN_TYPE

fun type_value :: "DocumentTypeEnum \<Rightarrow> string" where
  "type_value TRANSCRIPT_TYPE = ''transcript''"
| "type_value ID_DOCUMENT_TYPE = ''id_document''"
| "type_value CERTIFICATE_TYPE = ''certificate''"
| "type_value UNKNOWN_TYPE = ''unknown''"

record ExtractionError =
  code :: string
  error_field :: "string option"
  message :: string
  suggested_action :: "string option"

text \<open>\<open>ExtractionResponse\<close> without its time stamp \<open>created_at\<close>.\<close>

record ExtractionResponse =
  document_id :: string
  status :: DocumentStatus
  response_type :: DocumentTypeEnum
  filename :: string
  extracted_data :: "pyval pydict"
  field_confidences :: "real pydict"
  overall_confidence :: real
  errors :: "ExtractionError list"
  requires_review :: bool
  processing_time_ms :: "int option"
  response_model_used :: "string option"

text \<open>The registry built by \<open>DocumentProcessor.__init__\<close>, in its order.\<close>

definition templates :: "template list" where
  "templates =
     [UANCardTemplate, AadhaarCardTemplate, PANCardTemplate, VoterIDTemplate,
      DrivingLicenseTemplate, TranscriptTemplate, IDDocumentTemplate, CertificateTemplate]"

text \<open>
  The scoring loop of \<open>_classify_document\<close>, from the current best template and score.
\<close>

fun best_of :: "string \<Rightarrow> template list \<Rightarrow> template \<times> real \<Rightarrow> template \<times> real" where
  "best_of text [] best = best"
| "best_of text (t # ts) (best_template, best_score) =
     (let score = classify t text in
      if score > best_score then best_of text ts (t, score)
      else best_of text ts (best_template, best_score))"

text \<open>
  \<open>_classify_document\<close> over a registry \<open>ts\<close>. Every member of \<open>DocumentTypeEnum\<close> is
  true as a condition (its value is a non-empty string), so \<open>if type_hint\<close> asks whether
  a hint was given. \<open>self.templates[0]\<close> raises on an empty registry.
\<close>

definition classify_document ::
  "template list \<Rightarrow> string \<Rightarrow> DocumentTypeEnum option \<Rightarrow> pyexn + template" where
  "classify_document ts text type_hint =
     (case (case type_hint of
              Some h \<Rightarrow> find (\<lambda>t. category_value (category t) = type_value h) ts
            | None \<Rightarrow> None) of
        Some t \<Rightarrow> Inr t
      | None \<Rightarrow>
          (case ts of
             [] \<Rightarrow> Inl (IndexError ''list index out of range'')
           | t0 # _ \<Rightarrow> Inr (fst (best_of text ts (t0, 0)))))"

text \<open>The two dictionaries filled by the first loop of \<open>_build_response\<close>.\<close>

definition collect_values :: "(string \<times> ExtractedField) list \<Rightarrow> pyval pydict" where
  "collect_values fs = foldl (\<lambda>d (k, f). AList.update k (field_value f) d) [] fs"

definition collect_confidences :: "(string \<times> ExtractedField) list \<Rightarrow> real pydict" where
  "collect_confidences fs = foldl (\<lambda>d (k, f). AList.update k (field_confidence f) d) [] fs"

text \<open>
  The confidences of the fields whose post-processed value is not \<open>None\<close>, and the
  overall confidence with its OCR discount.
\<close>

definition non_null_confidences :: "real pydict \<Rightarrow> pyval pydict \<Rightarrow> real list" where
  "non_null_confidences confs data =
     map snd (filter (\<lambda>(k, conf). dict_get data k PNone \<noteq> PNone) confs)"

definition overall_of :: "real pydict \<Rightarrow> pyval pydict \<Rightarrow> OCRResult option \<Rightarrow> real" where
  "overall_of confs data ocr_result =
     (let non_null = non_null_confidences confs data;
          overall = (if non_null \<noteq> [] then sum_list non_null / real (length non_null) else 0)
      in case ocr_result of
           Some ocr \<Rightarrow> if confidence ocr < 7/10 then overall * confidence ocr else overall
         | None \<Rightarrow> overall)"

text \<open>The status block: the status, the errors and the review flag.\<close>

definition determine_status ::
  "builtins \<Rightarrow> real \<Rightarrow> ExtractionResult \<Rightarrow> string list \<Rightarrow> real
     \<Rightarrow> DocumentStatus \<times> ExtractionError list \<times> bool" where
  "determine_status B threshold llm_result validation_errors overall =
     (if \<not> success llm_result then
        (FAILED,
         [\<lparr> code = ''LLM_ERROR'', error_field = None, message = error llm_result,
            suggested_action = Some ''Try again or use different model'' \<rparr>],
         False)
      else if validation_errors \<noteq> [] then
        (REQUIRES_REVIEW,
         map (\<lambda>err. \<lparr> code = ''VALIDATION_ERROR'', error_field = None, message = err,
                      suggested_action = Some ''Manual review required'' \<rparr>) validation_errors,
         True)
      else if overall < threshold then
        (REQUIRES_REVIEW,
         [\<lparr> code = ''LOW_CONFIDENCE'', error_field = None,
            message = ''Overall confidence '' @ format_2f B overall @ '' below threshold'',
            suggested_action = Some ''Manual verification recommended'' \<rparr>],
         True)
      else (COMPLETED, [], False))"

fun doc_type_map :: "DocumentCategory \<Rightarrow> DocumentTypeEnum" where
  "doc_type_map TRANSCRIPT = TRANSCRIPT_TYPE"
| "doc_type_map ID_DOCUMENT = ID_DOCUMENT_TYPE"
| "doc_type_map CERTIFICATE = CERTIFICATE_TYPE"
| "doc_type_map _ = UNKNOWN_TYPE"

text \<open>
  \<open>_build_response\<close>. It raises what \<open>post_process\<close> raises, and the constructor of
  \<open>ExtractionResponse\<close> raises a \<open>ValidationError\<close> when \<open>overall_confidence\<close> breaks
  its declared bounds \<open>ge=0.0, le=1.0\<close>.
\<close>

definition build_response ::
  "builtins \<Rightarrow> real \<Rightarrow> string \<Rightarrow> string \<Rightarrow> template \<Rightarrow> ExtractionResult
     \<Rightarrow> OCRResult option \<Rightarrow> pyexn + ExtractionResponse" where
  "build_response B threshold doc_id fname t llm_result ocr_result =
     (let field_confs = collect_confidences (result_fields llm_result) in
      case post_process B t (collect_values (result_fields llm_result)) of
        Inl e \<Rightarrow> Inl e
      | Inr data \<Rightarrow>
          (let validation_errors = validate B t data;
               overall = overall_of field_confs data ocr_result;
               (st, errs, review) =
                  determine_status B threshold llm_result validation_errors overall
           in if 0 \<le> overall \<and> overall \<le> 1 then
                Inr \<lparr> document_id = doc_id, status = st,
                      response_type = doc_type_map (category t), filename = fname,
                      extracted_data = data, field_confidences = field_confs,
                      overall_confidence = overall, errors = errs, requires_review = review,
                      processing_time_ms = None,
                      response_model_used = Some (model_used llm_result) \<rparr>
              else Inl (ValidationError ''overall_confidence'')))"

text \<open>
  The response that the handler of \<open>process_file\<close> builds from an exception.
\<close>

definition processing_error_response ::
  "string \<Rightarrow> string \<Rightarrow> int \<Rightarrow> pyexn \<Rightarrow> ExtractionResponse" where
  "processing_error_response doc_id fname elapsed e =
     \<lparr> document_id = doc_id, status = FAILED, response_type = UNKNOWN_TYPE, filename = fname,
       extracted_data = [], field_confidences = [], overall_confidence = 0,
       errors = [\<lparr> code = ''PROCESSING_ERROR'', error_field = None, message = str_exn e,
                   suggested_action = Some ''Check file format and try again'' \<rparr>],
       requires_review = False, processing_time_ms = Some elapsed,
       response_model_used = None \<rparr>"

text \<open>
  The end of \<open>process_file\<close>, from the outcome of its earlier steps (loading, text
  extraction, OCR, classification and LLM extraction): either one of them raised, or
  they produced the template, the LLM result and the OCR result, if OCR was run.
\<close>

definition finish_processing ::
  "builtins \<Rightarrow> real \<Rightarrow> string \<Rightarrow> string \<Rightarrow> int
     \<Rightarrow> pyexn + (template \<times> ExtractionResult \<times> OCRResult option) \<Rightarrow> ExtractionResponse" where
  "finish_processing B threshold doc_id fname elapsed steps =
     (case steps of
        Inl e \<Rightarrow> processing_error_response doc_id fname elapsed e
      | Inr (t, llm_result, ocr_result) \<Rightarrow>
          (case build_response B threshold doc_id fname t llm_result ocr_result of
             Inl e \<Rightarrow> processing_error_response doc_id fname elapsed e
           | Inr response \<Rightarrow> response\<lparr>processing_time_ms := Some elapsed\<rparr>))"

text \<open>
  Stand-ins for the interpreter's built-ins, and LLM results for the voter-card template.
\<close>

definition example_response_text :: string where
  "example_response_text =
     ''{\"fields\": {\"full_name\": {\"value\": \"A\", \"confidence\": \"high\"}}}''"

definition example_builtins :: builtins where
  "example_builtins =
     \<lparr> json_loads = (\<lambda>s. if s = example_response_text
                          then Inr (PDict [(''fields'', PDict [(''full_name'',
                                  PDict [(''value'', PStr ''A''),
                                         (''confidence'', PStr ''high'')])])])
                          else Inl ''Expecting value: line 1 column 1 (char 0)''),
       float_of_str = (\<lambda>s. if s = ''21'' then Some 21 else None),
       repr_of = (\<lambda>v. ''[]''),
       format_2f = (\<lambda>x. ''0.50'') \<rparr>"

definition example_field :: "string \<Rightarrow> pyval \<Rightarrow> real \<Rightarrow> string \<times> ExtractedField" where
  "example_field k v c =
     (k, \<lparr> field_name = k, field_value = v, field_confidence = c, source_text = PStr [] \<rparr>)"

definition example_llm_result :: "bool \<Rightarrow> (string \<times> ExtractedField) list \<Rightarrow> ExtractionResult" where
  "example_llm_result ok fs =
     \<lparr> document_type = PStr ''id_document'', result_fields = fs, raw_response = [],
       model_used = ''ollama/llama3.2'', success = ok,
       error = (if ok then [] else ''Ollama error: connection refused'') \<rparr>"

section \<open>Response parsing (extraction/llm\_extractor.py)\<close>

text \<open>
  \<open>re.search(r'\<^verbatim>\<open>\{[\s\S]*\}\<close>', response)\<close>: the pattern is greedy, so a match runs
  from the first opening brace to the last closing brace after it.
\<close>

definition json_match :: "string \<Rightarrow> string option" where
  "json_match response =
     (let from_brace = dropWhile (\<lambda>c. c \<noteq> CHR ''{'') response in
      if from_brace = [] then None
      else (let to_brace = rev (dropWhile (\<lambda>c. c \<noteq> CHR ''}'') (rev (tl from_brace))) in
            if to_brace = [] then None else Some (CHR ''{'' # to_brace)))"

text \<open>
  The loop of \<open>_parse_response\<close> over the items of \<open>data["fields"]\<close>; only
  \<open>float(...)\<close> can raise in it.
\<close>

fun parse_fields ::
  "builtins \<Rightarrow> (string \<times> pyval) list \<Rightarrow> (string \<times> ExtractedField) list
     \<Rightarrow> pyexn + (string \<times> ExtractedField) list" where
  "parse_fields B [] acc = Inr acc"
| "parse_fields B ((fname, field_data) # rest) acc =
     (case field_data of
        PDict fd \<Rightarrow>
          (case py_float B (dict_get fd ''confidence'' (PFloat (1/2))) of
             Inl e \<Rightarrow> Inl e
           | Inr c \<Rightarrow>
               parse_fields B rest
                 (AList.update fname
                    \<lparr> field_name = fname, field_value = dict_get fd ''value'' PNone,
                      field_confidence = c,
                      source_text = dict_get fd ''source_text'' (PStr []) \<rparr> acc))
      | _ \<Rightarrow>
          parse_fields B rest
            (AList.update fname
               \<lparr> field_name = fname, field_value = field_data, field_confidence = 1/2,
                 source_text = PStr [] \<rparr> acc))"

text \<open>
  \<open>LLMExtractor._parse_response\<close>. Its handler catches \<open>json.JSONDecodeError\<close> only,
  which nothing but \<open>json.loads\<close> raises; every other exception leaves the method.
\<close>

definition parse_response :: "builtins \<Rightarrow> string \<Rightarrow> string \<Rightarrow> pyexn + ExtractionResult" where
  "parse_response B response doc_type =
     (case json_match response of
        None \<Rightarrow>
          Inr \<lparr> document_type = PStr doc_type, result_fields = [], raw_response = response,
                model_used = [], success = False, error = ''No JSON found in response'' \<rparr>
      | Some matched \<Rightarrow>
          (case json_loads B matched of
             Inl msg \<Rightarrow>
               Inr \<lparr> document_type = PStr doc_type, result_fields = [],
                     raw_response = response, model_used = [], success = False,
                     error = ''JSON parse error: '' @ msg \<rparr>
           | Inr data \<Rightarrow>
               (case data of
                  PDict d \<Rightarrow>
                    (case dict_get d ''fields'' (PDict []) of
                       PDict items \<Rightarrow>
                         (case parse_fields B items [] of
                            Inl e \<Rightarrow> Inl e
                          | Inr fs \<Rightarrow>
                              Inr \<lparr> document_type =
                                      dict_get d ''document_type'' (PStr doc_type),
                                    result_fields = fs, raw_response = response,
                                    model_used = [], success = True, error = [] \<rparr>)
                     | _ \<Rightarrow> Inl (AttributeError ''object has no attribute items''))
                | _ \<Rightarrow> Inl (AttributeError ''object has no attribute get''))))"

text \<open>
  \<open>OllamaExtractor.extract\<close> after the prompt is built. The outcome of the chat call
  is a parameter: the content of the reply, or the exception of the call. The handler
  \<open>except Exception\<close> of the method also catches what \<open>_parse_response\<close> raises, and
  its result carries no \<open>raw_response\<close>.
\<close>

definition ollama_extract ::
  "builtins \<Rightarrow> string \<Rightarrow> pyexn + string \<Rightarrow> string \<Rightarrow> ExtractionResult" where
  "ollama_extract B model chat doc_type =
     (case (case chat of
              Inl e \<Rightarrow> Inl e
            | Inr response_text \<Rightarrow> parse_response B response_text doc_type) of
        Inr result \<Rightarrow> result\<lparr>model_used := ''ollama/'' @ model\<rparr>
      | Inl e \<Rightarrow>
          \<lparr> document_type = PStr doc_type, result_fields = [], raw_response = [],
            model_used = ''ollama/'' @ model, success = False,
            error = ''Ollama error: '' @ str_exn e \<rparr>)"

section \<open>The specification's overall confidence\<close>



text \<open>The message of \<open>validate\<close> for a required field without a value.\<close>

definition missing_message :: "FieldDefinition \<Rightarrow> string" where
  "missing_message d =
     ''Required field '' @ [CHR 0x27] @ display_name d @ [CHR 0x27] @ '' is missing''"

section \<open>Verified properties\<close>

subsection \<open>OCR fallback policy\<close>

text \<open>
  Claim C4. In every run of \<open>OCRPipeline.process\<close> whose primary engine could be built:
  the fallback engine is invoked only if the primary engine raised or returned a result
  with confidence below the threshold; if the primary returned a result and the invoked
  fallback returned one too, the fallback's result is returned exactly when its
  confidence is strictly higher, and the primary's otherwise (so also on a tie); and if
  the primary raised and the available fallback raised, a single \<open>RuntimeError\<close> is
  raised whose text carries both causes.
\<close>

theorem ocr_fallback_policy:
  assumes init: "ocr_ensure_primary easyocr p = Inr p1"
      and run: "r = process easyocr tesseract p img"
  shows "(FallbackEngine \<in> set (ocr_invoked r) \<longrightarrow>
            (\<exists>e. recognize_primary p1 img = Inl e) \<or>
            (\<exists>res. recognize_primary p1 img = Inr res
                   \<and> confidence res < ocr_confidence_threshold p))
       \<and> (\<forall>res fb fres.
            recognize_primary p1 img = Inr res \<and> FallbackEngine \<in> set (ocr_invoked r)
              \<and> usable_fallback (ocr_pipeline r) = Some fb \<and> fb img = Inr fres
            \<longrightarrow> ocr_outcome r
                  = Inr (if confidence fres > confidence res then fres else res))
       \<and> (\<forall>e fb fe.
            recognize_primary p1 img = Inl e
              \<and> usable_fallback (ocr_pipeline r) = Some fb \<and> fb img = Inl fe
            \<longrightarrow> ocr_outcome r
                  = Inl (RuntimeError (''Both OCR engines failed. Primary: '' @ str_exn e
                                        @ '', Fallback: '' @ str_exn fe)))"
proof -
  have thr: "ocr_confidence_threshold p1 = ocr_confidence_threshold p"
    using init by (auto simp: ocr_ensure_primary_def split: if_splits option.splits sum.splits)
  show ?thesis
    unfolding run process_def using init thr
    by (auto simp: Let_def split: sum.splits option.splits if_splits)
qed

theorem ocr_fallback_policy_witness:
  "ocr_outcome (process (Inl (OtherException [])) (Inl (OtherException []))
       (OCRPipeline_init (Some (\<lambda>i::nat. Inr (example_ocr ''easyocr'' (3/10))))
          (Some (\<lambda>i. Inr (example_ocr ''tesseract'' (6/10)))) (1/2)) 0)
     = Inr (example_ocr ''tesseract'' (6/10))
   \<and> ocr_outcome (process (Inl (OtherException [])) (Inl (OtherException []))
       (OCRPipeline_init (Some (\<lambda>i::nat. Inl (OtherException ''boom'')))
          (Some (\<lambda>i. Inl (OtherException ''bang''))) (1/2)) 0)
     = Inl (RuntimeError ''Both OCR engines failed. Primary: boom, Fallback: bang'')"
proof -
  let ?ok = "OCRPipeline_init (Some (\<lambda>i::nat. Inr (example_ocr ''easyocr'' (3/10))))
          (Some (\<lambda>i. Inr (example_ocr ''tesseract'' (6/10)))) (1/2)"
  let ?bad = "OCRPipeline_init (Some (\<lambda>i::nat. Inl (OtherException ''boom'')))
          (Some (\<lambda>i. Inl (OtherException ''bang''))) (1/2)"
  let ?E = "Inl (OtherException []) :: pyexn + nat ocr_engine"
  have i1: "ocr_ensure_primary ?E ?ok = Inr (?ok\<lparr>ocr_primary_initialized := True\<rparr>)"
    by (simp add: ocr_ensure_primary_def OCRPipeline_init_def)
  have i2: "ocr_ensure_primary ?E ?bad = Inr (?bad\<lparr>ocr_primary_initialized := True\<rparr>)"
    by (simp add: ocr_ensure_primary_def OCRPipeline_init_def)
  have inv: "FallbackEngine \<in> set (ocr_invoked (process ?E ?E ?ok 0))"
    by (simp add: process_def ocr_ensure_primary_def ocr_ensure_fallback_def
          usable_fallback_def recognize_primary_def OCRPipeline_init_def example_ocr_def Let_def)
  have fb1: "usable_fallback (ocr_pipeline (process ?E ?E ?ok 0))
               = Some (\<lambda>i. Inr (example_ocr ''tesseract'' (6/10)))"
    by (simp add: process_def ocr_ensure_primary_def ocr_ensure_fallback_def
          usable_fallback_def recognize_primary_def OCRPipeline_init_def example_ocr_def Let_def)
  have fb2: "usable_fallback (ocr_pipeline (process ?E ?E ?bad 0))
               = Some (\<lambda>i. Inl (OtherException ''bang''))"
    by (simp add: process_def ocr_ensure_primary_def ocr_ensure_fallback_def
          usable_fallback_def recognize_primary_def OCRPipeline_init_def Let_def)
  have p1: "recognize_primary (?ok\<lparr>ocr_primary_initialized := True\<rparr>) (0::nat)
              = Inr (example_ocr ''easyocr'' (3/10))"
    by (simp add: recognize_primary_def OCRPipeline_init_def)
  have p2: "recognize_primary (?bad\<lparr>ocr_primary_initialized := True\<rparr>) (0::nat)
              = Inl (OtherException ''boom'')"
    by (simp add: recognize_primary_def OCRPipeline_init_def)
  from ocr_fallback_policy [OF i1 refl, of ?E 0] p1 inv fb1
  have a: "ocr_outcome (process ?E ?E ?ok 0) = Inr (example_ocr ''tesseract'' (6/10))"
    by (simp add: example_ocr_def)
  from ocr_fallback_policy [OF i2 refl, of ?E 0] p2 fb2
  have b: "ocr_outcome (process ?E ?E ?bad 0)
             = Inl (RuntimeError ''Both OCR engines failed. Primary: boom, Fallback: bang'')"
    by simp
  from a b show ?thesis by simp
qed

subsection \<open>LLM fallback policy\<close>

lemma ensure_primary_threshold:
  "ensure_primary ollama p = Inr p1 \<Longrightarrow> confidence_threshold p1 = confidence_threshold p"
  by (auto simp: ensure_primary_def split: if_splits option.splits sum.splits)

lemma ensure_fallback_again:
  "ensure_fallback gemini p = Inr p2 \<Longrightarrow> ensure_fallback gemini p2 = Inr p2"
  by (auto simp: ensure_fallback_def split: if_splits option.splits sum.splits)

lemma extract_try_invoked:
  assumes "extract_try gemini p1 text dt ex = b" "FallbackEngine \<in> set (llm_invoked b)"
  shows "\<exists>res. extract_primary p1 text dt ex = Inr res \<and>
               (\<not> success res \<or> average_confidence res < confidence_threshold p1)"
  using assms unfolding extract_try_def
  by (auto simp: Let_def split: sum.splits option.splits if_splits)

lemma extract_try_raises:
  assumes "extract_try gemini p1 text dt ex = b" "llm_outcome b = Inl e"
  shows "(llm_pipeline b = p1 \<and> FallbackEngine \<notin> set (llm_invoked b) \<and>
          ((\<exists>e'. extract_primary p1 text dt ex = Inl e') \<or> ensure_fallback gemini p1 = Inl e))
       \<or> (\<exists>fb res. ensure_fallback gemini p1 = Inr (llm_pipeline b)
              \<and> fallback (llm_pipeline b) = Some fb \<and> fb 0 text dt ex = Inl e
              \<and> llm_invoked b = [PrimaryEngine, FallbackEngine]
              \<and> extract_primary p1 text dt ex = Inr res
              \<and> (\<not> success res \<or> average_confidence res < confidence_threshold p1))"
  using assms unfolding extract_try_def
  by (auto simp: Let_def split: sum.splits option.splits if_splits)

lemma extract_try_returns:
  assumes "extract_try gemini p1 text dt ex = b" "llm_outcome b = Inr x"
      and "FallbackEngine \<in> set (llm_invoked b)"
      and "extract_primary p1 text dt ex = Inr res" and "success res"
  shows "\<exists>fb fres. fallback (llm_pipeline b) = Some fb
           \<and> fb 0 text dt ex = Inr fres
           \<and> x = (if success fres \<and> average_confidence fres > average_confidence res
                   then fres else res)"
  using assms unfolding extract_try_def
  by (auto simp: Let_def split: sum.splits option.splits if_splits)

text \<open>
  What holds in every run of \<open>LLMPipeline.extract\<close> whose primary engine could be
  built: the fallback engine is invoked only if the primary call raised, or returned an
  unsuccessful result, or returned a successful result whose mean field confidence is
  below the threshold; and if the primary result is successful and the first call of the
  fallback, the one inside the \<open>try\<close> block, returns a successful result, the run
  returns the fallback's result exactly when its mean confidence is strictly higher and
  the primary's otherwise.
\<close>

lemma llm_fallback_when_try_returns:
  assumes init: "ensure_primary ollama p = Inr p1"
      and run: "r = LLMPipeline_extract ollama gemini p text dt ex"
  shows "(FallbackEngine \<in> set (llm_invoked r) \<longrightarrow>
            (\<exists>e. extract_primary p1 text dt ex = Inl e) \<or>
            (\<exists>res. extract_primary p1 text dt ex = Inr res \<and>
                   (\<not> success res \<or> average_confidence res < confidence_threshold p)))
       \<and> (\<forall>res fb fres.
            extract_primary p1 text dt ex = Inr res \<and> success res
              \<and> FallbackEngine \<in> set (llm_invoked r)
              \<and> fallback (llm_pipeline r) = Some fb
              \<and> fb 0 text dt ex = Inr fres \<and> success fres
            \<longrightarrow> llm_outcome r
                    = Inr (if average_confidence fres > average_confidence res
                           then fres else res)
                \<and> (\<exists>x. llm_outcome r = Inr x
                         \<and> average_confidence x \<ge> average_confidence res
                         \<and> (average_confidence fres = average_confidence res \<longrightarrow> x = res)))"
proof -
  define b where "b = extract_try gemini p1 text dt ex"
  note thr = ensure_primary_threshold [OF init]
  have b: "extract_try gemini p1 text dt ex = b" by (simp add: b_def)
  have r_ok: "r = b" if "llm_outcome b = Inr x" for x
    using run init that by (simp add: LLMPipeline_extract_def Let_def b)
  have r_handler: "r = (case ensure_fallback gemini (llm_pipeline b) of
                      Inl e' \<Rightarrow> b\<lparr>llm_outcome := Inl e'\<rparr>
                    | Inr p2 \<Rightarrow>
                        (case fallback p2 of
                           Some fb \<Rightarrow>
                             \<lparr> llm_outcome =
                                 fb (count_list (llm_invoked b) FallbackEngine) text dt ex,
                               llm_invoked = llm_invoked b @ [FallbackEngine],
                               llm_pipeline = p2 \<rparr>
                         | None \<Rightarrow>
                             \<lparr> llm_outcome = Inr \<lparr> document_type = PStr dt,
                                   result_fields = [],
                                   raw_response = [], model_used = [], success = False,
                                   error = ''All extractors failed: '' @ str_exn e \<rparr>,
                               llm_invoked = llm_invoked b, llm_pipeline = p2 \<rparr>))"
    if "llm_outcome b = Inl e" for e
    using run init that by (simp add: LLMPipeline_extract_def Let_def b)
  have part1: "(\<exists>e. extract_primary p1 text dt ex = Inl e) \<or>
            (\<exists>res. extract_primary p1 text dt ex = Inr res \<and>
                   (\<not> success res \<or> average_confidence res < confidence_threshold p))"
    if inv: "FallbackEngine \<in> set (llm_invoked r)"
  proof (cases "llm_outcome b")
    case (Inr x)
    with inv r_ok have "FallbackEngine \<in> set (llm_invoked b)" by simp
    from extract_try_invoked [OF b this] show ?thesis by (simp add: thr)
  next
    case (Inl e)
    from extract_try_raises [OF b Inl] consider
        (prim) e' where "extract_primary p1 text dt ex = Inl e'"
      | (ctor) "llm_pipeline b = p1" "FallbackEngine \<notin> set (llm_invoked b)"
               "ensure_fallback gemini p1 = Inl e"
      | (fb) res where "extract_primary p1 text dt ex = Inr res"
               "\<not> success res \<or> average_confidence res < confidence_threshold p1"
      by blast
    then show ?thesis
    proof cases
      case prim
      then show ?thesis by blast
    next
      case ctor
      with r_handler [OF Inl] inv show ?thesis by simp
    next
      case fb
      then show ?thesis by (auto simp: thr)
    qed
  qed
  have part2: "llm_outcome r = Inr (if average_confidence fres > average_confidence res
                         then fres else res)"
    if prim: "extract_primary p1 text dt ex = Inr res" and ok: "success res"
      and inv: "FallbackEngine \<in> set (llm_invoked r)"
      and fb: "fallback (llm_pipeline r) = Some fb"
      and fres: "fb 0 text dt ex = Inr fres" and fok: "success fres"
    for res fb fres
  proof (cases "llm_outcome b")
    case (Inr x)
    with r_ok have rb: "r = b" by simp
    from extract_try_returns [OF b Inr _ prim ok] inv rb
    obtain fb' fres' where "fallback (llm_pipeline b) = Some fb'"
      "fb' 0 text dt ex = Inr fres'"
      "x = (if success fres' \<and> average_confidence fres' > average_confidence res
            then fres' else res)"
      by blast
    with fb fres fok rb Inr show ?thesis by simp
  next
    case (Inl e)
    from extract_try_raises [OF b Inl] consider
        (prim) e' where "extract_primary p1 text dt ex = Inl e'"
      | (ctor) "llm_pipeline b = p1" "FallbackEngine \<notin> set (llm_invoked b)"
               "ensure_fallback gemini p1 = Inl e"
      | (fb) fb' where "ensure_fallback gemini p1 = Inr (llm_pipeline b)"
               "fallback (llm_pipeline b) = Some fb'" "fb' 0 text dt ex = Inl e"
      by blast
    then show ?thesis
    proof cases
      case prim
      with \<open>extract_primary p1 text dt ex = Inr res\<close> show ?thesis by simp
    next
      case ctor
      with r_handler [OF Inl] inv show ?thesis by simp
    next
      case (fb fb')
      from ensure_fallback_again [OF fb(1)] r_handler [OF Inl] fb(2)
      have "llm_pipeline r = llm_pipeline b" by simp
      with \<open>fallback (llm_pipeline r) = Some fb\<close> fb(2,3) fres show ?thesis by simp
    qed
  qed
  have part3: "\<exists>x. llm_outcome r = Inr x
                         \<and> average_confidence x \<ge> average_confidence res
                         \<and> (average_confidence fres = average_confidence res \<longrightarrow> x = res)"
    if "llm_outcome r = Inr (if average_confidence fres > average_confidence res
                         then fres else res)" for res fres
    using that by auto
  from part1 part2 part3 show ?thesis by blast
qed

text \<open>
  Claim C3 says that whenever the primary and the fallback result are both successful,
  the returned result's mean confidence is not below the primary's, with the primary
  returned on ties. The code breaks this where the fallback's call inside the \<open>try\<close>
  block raises: the handler \<open>except Exception\<close>, written for a failing primary, catches
  that exception, calls the fallback a second time and returns what it yields without
  any comparison. Here the primary succeeds with mean 1/2 under the threshold 7/10, and
  the fallback raises once and then succeeds: with mean 1/10 its worse result is
  returned, and with mean 1/2, a tie, its result is returned and not the primary's.
\<close>

theorem fallback_retry_returns_uncompared_result:
  "llm_outcome (LLMPipeline_extract (Inl (OtherException [])) (Inl (ValueError []))
       (LLMPipeline_init (Some (\<lambda>n t d e. Inr (example_result True (1/2))))
          (Some retrying_fallback) True (7/10))
       ''text'' ''id_document'' [''full_name''])
     = Inr (example_result True (1/10))
   \<and> llm_invoked (LLMPipeline_extract (Inl (OtherException [])) (Inl (ValueError []))
       (LLMPipeline_init (Some (\<lambda>n t d e. Inr (example_result True (1/2))))
          (Some retrying_fallback) True (7/10))
       ''text'' ''id_document'' [''full_name''])
     = [PrimaryEngine, FallbackEngine, FallbackEngine]
   \<and> success (example_result True (1/2)) \<and> success (example_result True (1/10))
   \<and> average_confidence (example_result True (1/10))
       < average_confidence (example_result True (1/2))
   \<and> llm_outcome (LLMPipeline_extract (Inl (OtherException [])) (Inl (ValueError []))
       (LLMPipeline_init (Some (\<lambda>n t d e. Inr (example_result True (1/2))))
          (Some retrying_tie) True (7/10))
       ''text'' ''id_document'' [''full_name''])
     = Inr ((example_result True (1/2))\<lparr>model_used := ''gemini/gemini-1.5-flash''\<rparr>)
   \<and> average_confidence
         ((example_result True (1/2))\<lparr>model_used := ''gemini/gemini-1.5-flash''\<rparr>)
       = average_confidence (example_result True (1/2))
   \<and> (example_result True (1/2))\<lparr>model_used := ''gemini/gemini-1.5-flash''\<rparr>
       \<noteq> example_result True (1/2)"
  by (simp add: LLMPipeline_extract_def extract_try_def ensure_primary_def
        ensure_fallback_def extract_primary_def LLMPipeline_init_def average_confidence_def
        example_result_def retrying_fallback_def retrying_tie_def Let_def)

subsection \<open>Classification\<close>

lemma classify_nonneg: "0 \<le> classify t text"
  by (simp add: classify_def Let_def)

lemma best_of_decomp:
  "best_of text ts (b, s) = (b', s') \<Longrightarrow>
     (b' = b \<and> s' = s \<and> (\<forall>u\<in>set ts. classify u text \<le> s))
   \<or> (s' = classify b' text \<and> s < s' \<and>
       (\<exists>pre post. ts = pre @ b' # post
          \<and> (\<forall>u\<in>set pre. classify u text < s')
          \<and> (\<forall>u\<in>set post. classify u text \<le> s')))"
proof (induction ts arbitrary: b s)
  case Nil
  then show ?case by simp
next
  case (Cons t ts)
  show ?case
  proof (cases "classify t text > s")
    case True
    with Cons.prems have "best_of text ts (t, classify t text) = (b', s')"
      by (simp add: Let_def)
    from Cons.IH [OF this] show ?thesis
    proof (elim disjE conjE exE)
      assume "b' = t" "s' = classify t text" "\<forall>u\<in>set ts. classify u text \<le> classify t text"
      with True have "t # ts = [] @ b' # ts \<and> (\<forall>u\<in>set []. classify u text < s')
          \<and> (\<forall>u\<in>set ts. classify u text \<le> s')" by simp
      with True \<open>b' = t\<close> \<open>s' = classify t text\<close> show ?thesis by blast
    next
      fix pre post
      assume h: "s' = classify b' text" "classify t text < s'" "ts = pre @ b' # post"
        "\<forall>u\<in>set pre. classify u text < s'" "\<forall>u\<in>set post. classify u text \<le> s'"
      then have "t # ts = (t # pre) @ b' # post \<and> (\<forall>u\<in>set (t # pre). classify u text < s')
          \<and> (\<forall>u\<in>set post. classify u text \<le> s')" by simp
      moreover from True h have "s < s'" by simp
      ultimately show ?thesis using h(1) by blast
    qed
  next
    case False
    with Cons.prems have "best_of text ts (b, s) = (b', s')"
      by (simp add: Let_def)
    from Cons.IH [OF this] show ?thesis
    proof (elim disjE conjE exE)
      assume "b' = b" "s' = s" "\<forall>u\<in>set ts. classify u text \<le> s"
      with False show ?thesis by auto
    next
      fix pre post
      assume h: "s' = classify b' text" "s < s'" "ts = pre @ b' # post"
        "\<forall>u\<in>set pre. classify u text < s'" "\<forall>u\<in>set post. classify u text \<le> s'"
      with False have "t # ts = (t # pre) @ b' # post \<and> (\<forall>u\<in>set (t # pre). classify u text < s')
          \<and> (\<forall>u\<in>set post. classify u text \<le> s')" by simp
      with h(1,2) show ?thesis by blast
    qed
  qed
qed

lemma first_max_decomp:
  assumes "ts = pre @ b # post"
      and "\<forall>u\<in>set pre. classify u text < classify b text"
      and "\<forall>u\<in>set post. classify u text \<le> classify b text"
  shows "Max ((\<lambda>u. classify u text) ` set ts) = classify b text"
    and "find (\<lambda>u. classify u text = classify b text) ts = Some b"
proof -
  show "Max ((\<lambda>u. classify u text) ` set ts) = classify b text"
    using assms by (intro Max_eqI) (auto intro: less_imp_le)
  show "find (\<lambda>u. classify u text = classify b text) ts = Some b"
    unfolding assms(1) using assms(2) by (induction pre) auto
qed

lemma classify_document_no_hint:
  assumes "ts \<noteq> []"
  shows "\<exists>t. classify_document ts text None = Inr t
           \<and> find (\<lambda>u. classify u text = Max ((\<lambda>u. classify u text) ` set ts)) ts = Some t"
proof -
  from assms obtain t0 rest where ts: "ts = t0 # rest" by (cases ts) auto
  obtain b' s' where best: "best_of text ts (t0, 0) = (b', s')" by (cases "best_of text ts (t0, 0)")
  have res: "classify_document ts text None = Inr b'"
    using best by (simp add: classify_document_def ts)
  from best_of_decomp [OF best] show ?thesis
  proof (elim disjE conjE exE)
    assume h: "b' = t0" "s' = 0" "\<forall>u\<in>set ts. classify u text \<le> 0"
    then have all0: "\<forall>u\<in>set ts. classify u text = 0"
      using classify_nonneg by (metis order_antisym)
    have "ts = [] @ t0 # rest" by (simp add: ts)
    from first_max_decomp [OF this, of "text"] all0 ts
    have "find (\<lambda>u. classify u text = Max ((\<lambda>u. classify u text) ` set ts)) ts = Some t0"
      by simp
    with res h show ?thesis by simp
  next
    fix pre post
    assume h: "s' = classify b' text" "ts = pre @ b' # post"
        "\<forall>u\<in>set pre. classify u text < s'" "\<forall>u\<in>set post. classify u text \<le> s'"
    from first_max_decomp [OF h(2), of "text"] h(1,3,4)
    have "find (\<lambda>u. classify u text = Max ((\<lambda>u. classify u text) ` set ts)) ts = Some b'"
      by simp
    with res show ?thesis by simp
  qed
qed

lemma best_of_all_below:
  "\<forall>u\<in>set ts. classify u text \<le> s \<Longrightarrow> best_of text ts (b, s) = (b, s)"
  by (induction ts) (auto simp: Let_def)

lemmas hindi_defs = bharat_sarkar_def aadhaar_hindi_def aaykar_vibhag_def shram_card_def
  nirvachan_def matdata_def purush_def mahila_def

lemma keywords_nonempty: "[] \<notin> set (classification_keywords t)"
  by (cases t) (simp_all add: hindi_defs)

lemma classify_empty: "classify t [] = 0"
proof -
  have "filter (contains []) (classification_keywords t) = []"
    using keywords_nonempty [of t] by (auto simp: filter_empty_conv)
  then show ?thesis by (simp add: classify_def py_lower_def)
qed

lemma classify_no_match:
  "filter (contains (py_lower text)) (classification_keywords t) = [] \<Longrightarrow> classify t text = 0"
  by (simp add: classify_def)

lemma classify_some_match:
  "filter (contains (py_lower text)) (classification_keywords t) \<noteq> [] \<Longrightarrow> classify t text > 0"
  by (simp add: classify_def Let_def)

lemma matches_voter:
  "filter (contains ''voter'') (classification_keywords UANCardTemplate) = []"
  "filter (contains ''voter'') (classification_keywords AadhaarCardTemplate) = []"
  "filter (contains ''voter'') (classification_keywords PANCardTemplate) = []"
  "filter (contains ''voter'') (classification_keywords VoterIDTemplate) = [''voter'']"
  "filter (contains ''voter'') (classification_keywords DrivingLicenseTemplate) = []"
  "filter (contains ''voter'') (classification_keywords TranscriptTemplate) = []"
  "filter (contains ''voter'') (classification_keywords IDDocumentTemplate) = []"
  "filter (contains ''voter'') (classification_keywords CertificateTemplate) = []"
  by (simp_all add: hindi_defs)

lemma lower_voter: "py_lower ''voter'' = ''voter''"
  by (simp add: py_lower_def to_lower_def ascii_lowercase_def ascii_uppercase_def)

lemma voter_scores:
  "classify UANCardTemplate ''voter'' = 0" "classify AadhaarCardTemplate ''voter'' = 0"
  "classify PANCardTemplate ''voter'' = 0" "classify DrivingLicenseTemplate ''voter'' = 0"
  "classify TranscriptTemplate ''voter'' = 0" "classify IDDocumentTemplate ''voter'' = 0"
  "classify CertificateTemplate ''voter'' = 0"
  by (rule classify_no_match, simp only: lower_voter matches_voter)+

lemma voter_score_positive: "classify VoterIDTemplate ''voter'' > 0"
  by (rule classify_some_match) (simp only: lower_voter matches_voter, simp)

lemma voter_scored_best:
  "fst (best_of ''voter'' templates (UANCardTemplate, 0)) = VoterIDTemplate"
proof -
  have rest: "best_of ''voter''
          [DrivingLicenseTemplate, TranscriptTemplate, IDDocumentTemplate, CertificateTemplate]
          (VoterIDTemplate, classify VoterIDTemplate ''voter'')
        = (VoterIDTemplate, classify VoterIDTemplate ''voter'')"
    by (rule best_of_all_below) (use voter_scores voter_score_positive in auto)
  show ?thesis
    using voter_scores voter_score_positive rest by (simp add: templates_def Let_def)
qed

text \<open>
  Claim C8, as the code has it. Without a type hint the selected template is the first
  one of the registry whose score equals the maximum score over the registry. With a
  type hint that equals the category of some registered template, scoring is bypassed
  and the first such template is selected. With a type hint that matches no registered
  template (the hint \<open>unknown\<close>), the selection is the one made without a hint.
\<close>

theorem classification_selects_first_maximum:
  assumes "ts \<noteq> []"
  shows "(\<exists>t. classify_document ts text None = Inr t
            \<and> find (\<lambda>u. classify u text = Max ((\<lambda>u. classify u text) ` set ts)) ts = Some t)
       \<and> (\<forall>h t. find (\<lambda>u. category_value (category u) = type_value h) ts = Some t
            \<longrightarrow> classify_document ts text (Some h) = Inr t)
       \<and> (\<forall>h. find (\<lambda>u. category_value (category u) = type_value h) ts = None
            \<longrightarrow> classify_document ts text (Some h) = classify_document ts text None)"
  using classify_document_no_hint [OF assms, of "text"]
  by (simp add: classify_document_def)

theorem classification_selects_first_maximum_witness:
  "templates \<noteq> []
   \<and> classify_document templates ''voter'' (Some ID_DOCUMENT_TYPE) = Inr UANCardTemplate
   \<and> classify_document templates ''voter'' (Some CERTIFICATE_TYPE) = Inr CertificateTemplate
   \<and> classify_document templates ''voter'' (Some UNKNOWN_TYPE)
       = classify_document templates ''voter'' None"
proof -
  have ne: "templates \<noteq> []" by (simp add: templates_def)
  have f1: "find (\<lambda>u. category_value (category u) = type_value ID_DOCUMENT_TYPE) templates
              = Some UANCardTemplate"
    by (simp add: templates_def)
  have f2: "find (\<lambda>u. category_value (category u) = type_value CERTIFICATE_TYPE) templates
              = Some CertificateTemplate"
    by (simp add: templates_def)
  have f3: "find (\<lambda>u. category_value (category u) = type_value UNKNOWN_TYPE) templates = None"
    by (simp add: templates_def)
  note hinted = classification_selects_first_maximum
                  [OF ne, THEN conjunct2, THEN conjunct1, rule_format]
  note unmatched = classification_selects_first_maximum
                  [OF ne, THEN conjunct2, THEN conjunct2, rule_format]
  from ne hinted [OF f1] hinted [OF f2] unmatched [OF f3] show ?thesis by simp
qed

text \<open>
  The claim as stated fails: the hint \<open>unknown\<close> is supplied, no registered template
  has that category, and the selected template follows the scores of the text.
\<close>

theorem unknown_hint_is_scored_counterexample:
  "find (\<lambda>u. category_value (category u) = type_value UNKNOWN_TYPE) templates = None
   \<and> classify_document templates ''voter'' (Some UNKNOWN_TYPE) = Inr VoterIDTemplate
   \<and> classify_document templates [] (Some UNKNOWN_TYPE) = Inr UANCardTemplate"
proof -
  have "best_of [] templates (UANCardTemplate, 0) = (UANCardTemplate, 0)"
    by (rule best_of_all_below) (simp add: classify_empty)
  then show ?thesis
    using voter_scored_best by (simp add: classify_document_def templates_def)
qed

text \<open>
  Claim C10. If every registered template scores zero on a text and no type hint is
  given, \<open>_classify_document\<close> returns the first registered template, the UAN card
  template: the document is processed under that schema, not rejected.
\<close>

theorem unrecognized_text_selects_first_template:
  assumes "\<forall>t\<in>set templates. classify t text = 0"
  shows "classify_document templates text None = Inr UANCardTemplate"
proof -
  from assms have "\<forall>u\<in>set templates. classify u text \<le> 0" by simp
  from best_of_all_below [OF this, of UANCardTemplate]
  show ?thesis by (simp add: classify_document_def templates_def)
qed

theorem unrecognized_text_selects_first_template_witness:
  "map (\<lambda>t. classify t []) templates = [0, 0, 0, 0, 0, 0, 0, 0]
   \<and> classify_document templates [] None = Inr UANCardTemplate"
proof -
  have h: "\<forall>t\<in>set templates. classify t [] = 0" by (simp add: classify_empty)
  have "map (\<lambda>t. classify t []) templates = [0, 0, 0, 0, 0, 0, 0, 0]"
    by (simp add: classify_empty templates_def)
  with unrecognized_text_selects_first_template [OF h] show ?thesis by simp
qed

subsection \<open>Status of a built response\<close>

lemma voter_completed:
  "build_response example_builtins (4/5) ''doc'' ''card.png'' VoterIDTemplate
     (example_llm_result True [example_field ''elector_name'' (PStr ''A'') (9/10),
                         example_field ''epic_number'' (PStr ''X1'') (9/10)]) None
   = Inr \<lparr> document_id = ''doc'', status = COMPLETED, response_type = ID_DOCUMENT_TYPE,
           filename = ''card.png'',
           extracted_data = [(''elector_name'', PStr ''A''), (''epic_number'', PStr ''X1'')],
           field_confidences = [(''elector_name'', 9/10), (''epic_number'', 9/10)],
           overall_confidence = 9/10, errors = [], requires_review = False,
           processing_time_ms = None, response_model_used = Some ''ollama/llama3.2'' \<rparr>"
  by (simp add: build_response_def determine_status_def example_llm_result_def example_field_def
        collect_values_def collect_confidences_def validate_def validate_field_def FD_def
        dict_get_def overall_of_def non_null_confidences_def Let_def)

lemma voter_failed:
  "build_response example_builtins (4/5) ''doc'' ''card.png'' VoterIDTemplate
     (example_llm_result False []) None
   = Inr \<lparr> document_id = ''doc'', status = FAILED, response_type = ID_DOCUMENT_TYPE,
           filename = ''card.png'', extracted_data = [], field_confidences = [],
           overall_confidence = 0,
           errors = [\<lparr> code = ''LLM_ERROR'', error_field = None,
                       message = ''Ollama error: connection refused'',
                       suggested_action = Some ''Try again or use different model'' \<rparr>],
           requires_review = False,
           processing_time_ms = None, response_model_used = Some ''ollama/llama3.2'' \<rparr>"
  by (simp add: build_response_def determine_status_def example_llm_result_def
        collect_values_def collect_confidences_def
        overall_of_def non_null_confidences_def Let_def)

lemma built_status_chain:
  assumes "build_response B threshold doc_id fname t llm ocr = Inr r"
  shows "(\<not> success llm \<longrightarrow>
            status r = FAILED
          \<and> errors r = [\<lparr> code = ''LLM_ERROR'', error_field = None, message = error llm,
                           suggested_action = Some ''Try again or use different model'' \<rparr>])
       \<and> (success llm \<and> validate B t (extracted_data r) \<noteq> [] \<longrightarrow>
            status r = REQUIRES_REVIEW
          \<and> map code (errors r)
              = replicate (length (validate B t (extracted_data r))) ''VALIDATION_ERROR''
          \<and> map message (errors r) = validate B t (extracted_data r))
       \<and> (success llm \<and> validate B t (extracted_data r) = []
            \<and> overall_confidence r < threshold \<longrightarrow>
            status r = REQUIRES_REVIEW \<and> map code (errors r) = [''LOW_CONFIDENCE''])
       \<and> (success llm \<and> validate B t (extracted_data r) = []
            \<and> \<not> overall_confidence r < threshold \<longrightarrow>
            status r = COMPLETED \<and> errors r = [])"
  using assms unfolding build_response_def determine_status_def
  by (auto simp: Let_def map_replicate_const comp_def split: sum.splits if_splits)

lemma build_response_cases:
  "(case post_process B t (collect_values (result_fields llm)) of
      Inl e \<Rightarrow> build_response B threshold doc_id fname t llm ocr = Inl e
    | Inr data \<Rightarrow>
        (let overall = overall_of (collect_confidences (result_fields llm)) data ocr in
         if 0 \<le> overall \<and> overall \<le> 1 then
           \<exists>r'. build_response B threshold doc_id fname t llm ocr = Inr r'
                \<and> extracted_data r' = data \<and> overall_confidence r' = overall
         else build_response B threshold doc_id fname t llm ocr
                = Inl (ValidationError ''overall_confidence'')))"
  unfolding build_response_def
  by (auto simp: Let_def split: sum.splits prod.splits)

lemma processing_error_status:
  "status (processing_error_response doc_id fname elapsed e) = FAILED
   \<and> map code (errors (processing_error_response doc_id fname elapsed e))
       = [''PROCESSING_ERROR'']
   \<and> map message (errors (processing_error_response doc_id fname elapsed e)) = [str_exn e]"
  by (simp add: processing_error_response_def)

text \<open>
  Claim C1, as the code has it. A document whose earlier steps raise, whose
  post-processing raises, or whose overall confidence falls outside [0,1] (so that the
  constructor of the response raises) ends as \<open>failed\<close> with the single error
  \<open>PROCESSING_ERROR\<close>. For every other processed document the status is assigned in the
  claimed order: an unsuccessful LLM result gives \<open>failed\<close> with the single error
  \<open>LLM_ERROR\<close>; otherwise validation messages give \<open>requires_review\<close> with one
  \<open>VALIDATION_ERROR\<close> per message, in order; otherwise an overall confidence below the
  threshold gives \<open>requires_review\<close> with one \<open>LOW_CONFIDENCE\<close> error; otherwise the
  status is \<open>completed\<close> and there is no error.
\<close>

theorem status_priority_unless_exception:
  assumes "r = finish_processing B threshold doc_id fname elapsed steps"
  shows "(\<forall>e. steps = Inl e \<longrightarrow>
            status r = FAILED \<and> map code (errors r) = [''PROCESSING_ERROR'']
          \<and> map message (errors r) = [str_exn e])
       \<and> (\<forall>t llm ocr. steps = Inr (t, llm, ocr) \<longrightarrow>
            (case post_process B t (collect_values (result_fields llm)) of
               Inl e \<Rightarrow>
                 status r = FAILED \<and> map code (errors r) = [''PROCESSING_ERROR'']
               \<and> map message (errors r) = [str_exn e]
             | Inr data \<Rightarrow>
                 (let overall = overall_of (collect_confidences (result_fields llm)) data ocr
                  in if 0 \<le> overall \<and> overall \<le> 1 then
                       extracted_data r = data \<and> overall_confidence r = overall
                     \<and> (\<not> success llm \<longrightarrow>
                           status r = FAILED
                         \<and> errors r = [\<lparr> code = ''LLM_ERROR'', error_field = None,
                                          message = error llm,
                                          suggested_action =
                                            Some ''Try again or use different model'' \<rparr>])
                     \<and> (success llm \<and> validate B t data \<noteq> [] \<longrightarrow>
                           status r = REQUIRES_REVIEW
                         \<and> map code (errors r)
                             = replicate (length (validate B t data)) ''VALIDATION_ERROR''
                         \<and> map message (errors r) = validate B t data)
                     \<and> (success llm \<and> validate B t data = [] \<and> overall < threshold \<longrightarrow>
                           status r = REQUIRES_REVIEW
                         \<and> map code (errors r) = [''LOW_CONFIDENCE''])
                     \<and> (success llm \<and> validate B t data = [] \<and> \<not> overall < threshold \<longrightarrow>
                           status r = COMPLETED \<and> errors r = [])
                     else status r = FAILED
                        \<and> map code (errors r) = [''PROCESSING_ERROR''])))"
proof (intro conjI allI impI)
  fix e assume "steps = Inl e"
  with assms have "r = processing_error_response doc_id fname elapsed e"
    by (simp add: finish_processing_def)
  with processing_error_status [of doc_id fname elapsed e]
  show "status r = FAILED" "map code (errors r) = [''PROCESSING_ERROR'']"
       "map message (errors r) = [str_exn e]"
    by simp_all
next
  fix t llm ocr assume steps: "steps = Inr (t, llm, ocr)"
  note cases = build_response_cases [where B = B and t = t and llm = llm
      and threshold = threshold and doc_id = doc_id and fname = fname and ocr = ocr]
  show "case post_process B t (collect_values (result_fields llm)) of
               Inl e \<Rightarrow>
                 status r = FAILED \<and> map code (errors r) = [''PROCESSING_ERROR'']
               \<and> map message (errors r) = [str_exn e]
             | Inr data \<Rightarrow>
                 (let overall = overall_of (collect_confidences (result_fields llm)) data ocr
                  in if 0 \<le> overall \<and> overall \<le> 1 then
                       extracted_data r = data \<and> overall_confidence r = overall
                     \<and> (\<not> success llm \<longrightarrow>
                           status r = FAILED
                         \<and> errors r = [\<lparr> code = ''LLM_ERROR'', error_field = None,
                                          message = error llm,
                                          suggested_action =
                                            Some ''Try again or use different model'' \<rparr>])
                     \<and> (success llm \<and> validate B t data \<noteq> [] \<longrightarrow>
                           status r = REQUIRES_REVIEW
                         \<and> map code (errors r)
                             = replicate (length (validate B t data)) ''VALIDATION_ERROR''
                         \<and> map message (errors r) = validate B t data)
                     \<and> (success llm \<and> validate B t data = [] \<and> overall < threshold \<longrightarrow>
                           status r = REQUIRES_REVIEW
                         \<and> map code (errors r) = [''LOW_CONFIDENCE''])
                     \<and> (success llm \<and> validate B t data = [] \<and> \<not> overall < threshold \<longrightarrow>
                           status r = COMPLETED \<and> errors r = [])
                     else status r = FAILED
                        \<and> map code (errors r) = [''PROCESSING_ERROR''])"
  proof (cases "post_process B t (collect_values (result_fields llm))")
    case (Inl e)
    with cases have "build_response B threshold doc_id fname t llm ocr = Inl e" by simp
    with assms steps have "r = processing_error_response doc_id fname elapsed e"
      by (simp add: finish_processing_def)
    with processing_error_status [of doc_id fname elapsed e] Inl show ?thesis by simp
  next
    case (Inr data)
    define overall where
      "overall = overall_of (collect_confidences (result_fields llm)) data ocr"
    show ?thesis
    proof (cases "0 \<le> overall \<and> overall \<le> 1")
      case False
      with cases Inr have "build_response B threshold doc_id fname t llm ocr
                             = Inl (ValidationError ''overall_confidence'')"
        by (simp add: Let_def overall_def)
      with assms steps
      have "r = processing_error_response doc_id fname elapsed
                  (ValidationError ''overall_confidence'')"
        by (simp add: finish_processing_def)
      with processing_error_status
             [of doc_id fname elapsed "ValidationError ''overall_confidence''"]
      have failed: "status r = FAILED \<and> map code (errors r) = [''PROCESSING_ERROR'']"
        by simp
      show ?thesis
        unfolding Inr sum.case Let_def overall_def [symmetric] if_not_P [OF False]
        by (rule failed)
    next
      case True
      with cases Inr obtain r' where
        built: "build_response B threshold doc_id fname t llm ocr = Inr r'"
        and d: "extracted_data r' = data" and o: "overall_confidence r' = overall"
        by (auto simp: Let_def overall_def)
      from assms steps built have r: "r = r'\<lparr>processing_time_ms := Some elapsed\<rparr>"
        by (simp add: finish_processing_def)
      from built_status_chain [OF built] d o r
      have chain: "extracted_data r = data \<and> overall_confidence r = overall
                     \<and> (\<not> success llm \<longrightarrow>
                           status r = FAILED
                         \<and> errors r = [\<lparr> code = ''LLM_ERROR'', error_field = None,
                                          message = error llm,
                                          suggested_action =
                                            Some ''Try again or use different model'' \<rparr>])
                     \<and> (success llm \<and> validate B t data \<noteq> [] \<longrightarrow>
                           status r = REQUIRES_REVIEW
                         \<and> map code (errors r)
                             = replicate (length (validate B t data)) ''VALIDATION_ERROR''
                         \<and> map message (errors r) = validate B t data)
                     \<and> (success llm \<and> validate B t data = [] \<and> overall < threshold \<longrightarrow>
                           status r = REQUIRES_REVIEW
                         \<and> map code (errors r) = [''LOW_CONFIDENCE''])
                     \<and> (success llm \<and> validate B t data = [] \<and> \<not> overall < threshold \<longrightarrow>
                           status r = COMPLETED \<and> errors r = [])"
        by simp
      show ?thesis
        unfolding Inr sum.case Let_def overall_def [symmetric] if_P [OF True]
        by (rule chain)
    qed
  qed
qed

lemma voter_fields:
  "collect_values [example_field ''elector_name'' (PStr ''A'') c,
                   example_field ''epic_number'' (PStr ''X1'') c]
     = [(''elector_name'', PStr ''A''), (''epic_number'', PStr ''X1'')]"
  "validate example_builtins VoterIDTemplate
     [(''elector_name'', PStr ''A''), (''epic_number'', PStr ''X1'')] = []"
  "overall_of (collect_confidences [example_field ''elector_name'' (PStr ''A'') c,
                                    example_field ''epic_number'' (PStr ''X1'') c])
     [(''elector_name'', PStr ''A''), (''epic_number'', PStr ''X1'')] None = c"
  by (simp_all add: example_field_def collect_values_def collect_confidences_def
        validate_def validate_field_def FD_def dict_get_def overall_of_def
        non_null_confidences_def)

theorem status_priority_unless_exception_witness:
  "status (finish_processing example_builtins (4/5) ''doc'' ''card.png'' 12
      (Inr (VoterIDTemplate,
            example_llm_result True [example_field ''elector_name'' (PStr ''A'') (9/10),
                                     example_field ''epic_number'' (PStr ''X1'') (9/10)],
            None))) = COMPLETED
   \<and> status (finish_processing example_builtins (4/5) ''doc'' ''card.png'' 12
      (Inr (VoterIDTemplate,
            example_llm_result True [example_field ''elector_name'' (PStr ''A'') (6/5),
                                     example_field ''epic_number'' (PStr ''X1'') (6/5)],
            None))) = FAILED"
proof -
  let ?L = "\<lambda>c. example_llm_result True [example_field ''elector_name'' (PStr ''A'') c,
                                          example_field ''epic_number'' (PStr ''X1'') c]"
  let ?r = "\<lambda>c. finish_processing example_builtins (4/5) ''doc'' ''card.png'' 12
                  (Inr (VoterIDTemplate, ?L c, None))"
  have fs: "result_fields (?L c) = [example_field ''elector_name'' (PStr ''A'') c,
                                    example_field ''epic_number'' (PStr ''X1'') c]"
    and ok: "success (?L c)" for c
    by (simp_all add: example_llm_result_def)
  note inst = status_priority_unless_exception
                [OF refl, THEN conjunct2, rule_format, OF refl]
  from inst [of example_builtins "4/5" "''doc''" "''card.png''" 12 VoterIDTemplate
                "?L (9/10)" None]
  have a: "status (?r (9/10)) = COMPLETED"
    by (simp add: fs ok voter_fields Let_def)
  from inst [of example_builtins "4/5" "''doc''" "''card.png''" 12 VoterIDTemplate
                "?L (6/5)" None]
  have b: "status (?r (6/5)) = FAILED"
    by (simp add: fs ok voter_fields Let_def)
  from a b show ?thesis by (rule conjI)
qed

text \<open>
  The claim as stated fails: the LLM result is successful with both confidences 6/5
  (the parser does not clamp), validation finds nothing and the overall confidence 6/5
  is not below the threshold 4/5, yet the document ends as \<open>failed\<close> with
  \<open>PROCESSING_ERROR\<close>, not as \<open>completed\<close>.
\<close>

theorem confidence_above_one_counterexample:
  "success (example_llm_result True [example_field ''elector_name'' (PStr ''A'') (6/5),
                                    example_field ''epic_number'' (PStr ''X1'') (6/5)])
   \<and> post_process example_builtins VoterIDTemplate
        (collect_values (result_fields
           (example_llm_result True [example_field ''elector_name'' (PStr ''A'') (6/5),
                                     example_field ''epic_number'' (PStr ''X1'') (6/5)])))
       = Inr [(''elector_name'', PStr ''A''), (''epic_number'', PStr ''X1'')]
   \<and> validate example_builtins VoterIDTemplate
        [(''elector_name'', PStr ''A''), (''epic_number'', PStr ''X1'')] = []
   \<and> overall_of
        (collect_confidences (result_fields
           (example_llm_result True [example_field ''elector_name'' (PStr ''A'') (6/5),
                                     example_field ''epic_number'' (PStr ''X1'') (6/5)])))
        [(''elector_name'', PStr ''A''), (''epic_number'', PStr ''X1'')] None = 6/5
   \<and> \<not> (6/5 < (4/5::real))
   \<and> status (finish_processing example_builtins (4/5) ''doc'' ''card.png'' 12
        (Inr (VoterIDTemplate,
              example_llm_result True [example_field ''elector_name'' (PStr ''A'') (6/5),
                                       example_field ''epic_number'' (PStr ''X1'') (6/5)],
              None))) = FAILED
   \<and> map code (errors (finish_processing example_builtins (4/5) ''doc'' ''card.png'' 12
        (Inr (VoterIDTemplate,
              example_llm_result True [example_field ''elector_name'' (PStr ''A'') (6/5),
                                       example_field ''epic_number'' (PStr ''X1'') (6/5)],
              None)))) = [''PROCESSING_ERROR'']"
proof -
  have fs: "result_fields (example_llm_result True fields') = fields'"
    and ok: "success (example_llm_result True fields')" for fields'
    by (simp_all add: example_llm_result_def)
  have "build_response example_builtins (4/5) ''doc'' ''card.png'' VoterIDTemplate
          (example_llm_result True [example_field ''elector_name'' (PStr ''A'') (6/5),
                                    example_field ''epic_number'' (PStr ''X1'') (6/5)]) None
        = Inl (ValidationError ''overall_confidence'')"
    by (simp add: build_response_def fs voter_fields Let_def split_def)
  then show ?thesis
    by (simp add: finish_processing_def processing_error_response_def fs ok voter_fields)
qed

subsection \<open>Overall confidence\<close>











subsection \<open>LLM results with only null values\<close>

lemma update_values: "snd ` set (AList.update k v al) \<subseteq> insert v (snd ` set al)"
  by (induction al) auto

lemma foldl_update_values:
  "snd ` set d \<subseteq> V \<Longrightarrow> g ` snd ` set fs \<subseteq> V \<Longrightarrow>
   snd ` set (foldl (\<lambda>d (k, f). AList.update k (g f) d) d fs) \<subseteq> V"
proof (induction fs arbitrary: d)
  case Nil
  then show ?case by simp
next
  case (Cons x fs)
  obtain k f where x: "x = (k, f)" by (cases x)
  have "snd ` set (AList.update k (g f) d) \<subseteq> insert (g f) (snd ` set d)"
    by (rule update_values)
  also have "\<dots> \<subseteq> V" using Cons.prems x by auto
  finally have "snd ` set (AList.update k (g f) d) \<subseteq> V" .
  moreover have "g ` snd ` set fs \<subseteq> V" using Cons.prems(2) by simp
  ultimately show ?case using Cons.IH x by simp
qed

lemma collect_values_null:
  assumes "field_value ` snd ` set fs \<subseteq> {PNone}"
  shows "snd ` set (collect_values fs) \<subseteq> {PNone}"
  unfolding collect_values_def
  by (rule foldl_update_values) (use assms in auto)

lemma null_lookup: "snd ` set d \<subseteq> {PNone} \<Longrightarrow> map_of d k = Some v \<Longrightarrow> v = PNone"
  by (force dest: map_of_SomeD)

lemma dict_get_null: "snd ` set d \<subseteq> {PNone} \<Longrightarrow> dict_get d k PNone = PNone"
  by (auto simp: dict_get_def split: option.splits dest: null_lookup)

lemma dict_get_null_default:
  "snd ` set d \<subseteq> {PNone} \<Longrightarrow> \<not> truthy dflt \<Longrightarrow> \<not> truthy (dict_get d k dflt)"
  by (auto simp: dict_get_def split: option.splits dest: null_lookup)

lemma if_set_null: "snd ` set d \<subseteq> {PNone} \<Longrightarrow> if_set k body d = Inr d"
  by (auto simp: if_set_def split: option.splits dest: null_lookup)

lemma combine_names_null: "snd ` set d \<subseteq> {PNone} \<Longrightarrow> combine_names B d = d"
  using dict_get_null_default [of d PNone] dict_get_null_default [of d "PStr []"]
  by (simp add: combine_names_def Let_def)

lemma post_process_null:
  "snd ` set d \<subseteq> {PNone} \<Longrightarrow> post_process B t d = Inr d"
  by (cases t) (simp_all add: if_set_null combine_names_null and_then_def)

lemma concat_map_if: "concat (map (\<lambda>x. if P x then [f x] else []) xs) = map f (filter P xs)"
  by (induction xs) auto

lemma validate_null:
  assumes "snd ` set d \<subseteq> {PNone}"
  shows "validate B t d = map missing_message (filter required (field_definitions t))"
proof -
  have "validate_field B d fd = (if required fd then [missing_message fd] else [])" for fd
    by (simp add: validate_field_def dict_get_null [OF assms] missing_message_def)
  then have "validate_field B d = (\<lambda>fd. if required fd then [missing_message fd] else [])"
    by (rule ext)
  then show ?thesis by (simp add: validate_def concat_map_if)
qed

lemma some_field_required: "filter required (field_definitions t) \<noteq> []"
  by (cases t) (simp_all add: FD_def)

lemma overall_null:
  assumes "snd ` set d \<subseteq> {PNone}"
  shows "overall_of confs d ocr = 0"
proof -
  have "non_null_confidences confs d = []"
    by (simp add: non_null_confidences_def dict_get_null [OF assms] split_def)
  then show ?thesis by (cases ocr) (simp_all add: overall_of_def)
qed

text \<open>
  Claim C9, as the code has it. A document whose LLM extraction succeeds but returns
  only null-valued fields gets the overall confidence 0 and the status
  \<open>requires_review\<close>; its errors are one \<open>VALIDATION_ERROR\<close> for each required field
  of the selected template, and there is at least one. Validation comes before the
  confidence test in the status block, so no \<open>LOW_CONFIDENCE\<close> error is carried.
\<close>

theorem all_null_fields_fail_validation:
  assumes "success llm"
      and "field_value ` snd ` set (result_fields llm) \<subseteq> {PNone}"
      and "r = finish_processing B threshold doc_id fname elapsed (Inr (t, llm, ocr))"
  shows "overall_confidence r = 0 \<and> status r = REQUIRES_REVIEW \<and> requires_review r
       \<and> errors r \<noteq> []
       \<and> map code (errors r)
           = replicate (length (filter required (field_definitions t))) ''VALIDATION_ERROR''
       \<and> map message (errors r)
           = map missing_message (filter required (field_definitions t))
       \<and> ''LOW_CONFIDENCE'' \<notin> set (map code (errors r))"
proof -
  define data where "data = collect_values (result_fields llm)"
  have null: "snd ` set data \<subseteq> {PNone}"
    unfolding data_def by (rule collect_values_null [OF assms(2)])
  have pp: "post_process B t data = Inr data" by (rule post_process_null [OF null])
  have v: "validate B t data = map missing_message (filter required (field_definitions t))"
    by (rule validate_null [OF null])
  have ov: "overall_of (collect_confidences (result_fields llm)) data ocr = 0"
    by (rule overall_null [OF null])
  have ne: "validate B t data \<noteq> []" by (simp add: v some_field_required)
  have "r = \<lparr> document_id = doc_id, status = REQUIRES_REVIEW,
               response_type = doc_type_map (category t), filename = fname,
               extracted_data = data,
               field_confidences = collect_confidences (result_fields llm),
               overall_confidence = 0,
               errors = map (\<lambda>err. \<lparr> code = ''VALIDATION_ERROR'', error_field = None,
                                       message = err,
                                       suggested_action = Some ''Manual review required'' \<rparr>)
                          (validate B t data),
               requires_review = True, processing_time_ms = Some elapsed,
               response_model_used = Some (model_used llm) \<rparr>"
    unfolding assms(3) finish_processing_def build_response_def determine_status_def
    using assms(1) ne by (simp add: data_def [symmetric] pp ov Let_def)
  then show ?thesis
    using ne by (simp add: v comp_def map_replicate_const some_field_required)
qed

lemma uan_null_response:
  "finish_processing example_builtins (4/5) ''doc'' ''scan.png'' 12
     (Inr (UANCardTemplate,
           example_llm_result True [example_field ''member_name'' PNone 0,
                                    example_field ''uan_number'' PNone 0],
           None))
   = \<lparr> document_id = ''doc'', status = REQUIRES_REVIEW, response_type = ID_DOCUMENT_TYPE,
       filename = ''scan.png'',
       extracted_data = [(''member_name'', PNone), (''uan_number'', PNone)],
       field_confidences = [(''member_name'', 0), (''uan_number'', 0)],
       overall_confidence = 0,
       errors = map (\<lambda>err. \<lparr> code = ''VALIDATION_ERROR'', error_field = None,
                               message = err,
                               suggested_action = Some ''Manual review required'' \<rparr>)
                  [''Required field '' @ [CHR 0x27] @ ''Member Name'' @ [CHR 0x27]
                     @ '' is missing'',
                   ''Required field '' @ [CHR 0x27] @ ''UAN Number'' @ [CHR 0x27]
                     @ '' is missing'',
                   ''Required field '' @ [CHR 0x27] @ ''Date of Birth'' @ [CHR 0x27]
                     @ '' is missing''],
       requires_review = True, processing_time_ms = Some 12,
       response_model_used = Some ''ollama/llama3.2'' \<rparr>"
  by (simp add: finish_processing_def build_response_def determine_status_def
        example_llm_result_def example_field_def collect_values_def collect_confidences_def
        validate_def validate_field_def FD_def dict_get_def overall_of_def
        non_null_confidences_def if_set_def and_then_def Let_def)

theorem all_null_fields_fail_validation_witness:
  "overall_confidence (finish_processing example_builtins (4/5) ''doc'' ''scan.png'' 12
     (Inr (UANCardTemplate,
           example_llm_result True [example_field ''member_name'' PNone 0,
                                    example_field ''uan_number'' PNone 0],
           None))) = 0
   \<and> status (finish_processing example_builtins (4/5) ''doc'' ''scan.png'' 12
     (Inr (UANCardTemplate,
           example_llm_result True [example_field ''member_name'' PNone 0,
                                    example_field ''uan_number'' PNone 0],
           None))) = REQUIRES_REVIEW
   \<and> map code (errors (finish_processing example_builtins (4/5) ''doc'' ''scan.png'' 12
     (Inr (UANCardTemplate,
           example_llm_result True [example_field ''member_name'' PNone 0,
                                    example_field ''uan_number'' PNone 0],
           None))))
     = [''VALIDATION_ERROR'', ''VALIDATION_ERROR'', ''VALIDATION_ERROR'']"
proof -
  let ?L = "example_llm_result True [example_field ''member_name'' PNone 0,
                                    example_field ''uan_number'' PNone 0]"
  have ok: "success ?L" by (simp add: example_llm_result_def)
  have null: "field_value ` snd ` set (result_fields ?L) \<subseteq> {PNone}"
    by (simp add: example_llm_result_def example_field_def)
  from all_null_fields_fail_validation [OF ok null refl, of example_builtins "4/5" "''doc''"
         "''scan.png''" 12 UANCardTemplate None]
  show ?thesis by (simp add: FD_def)
qed

text \<open>
  The claim as stated fails: for the UAN card template and a successful LLM result with
  two null fields the response has overall confidence 0 and status
  \<open>requires_review\<close>, but its three errors are \<open>VALIDATION_ERROR\<close>; none is
  \<open>LOW_CONFIDENCE\<close>.
\<close>

theorem all_null_fields_counterexample:
  "success (example_llm_result True [example_field ''member_name'' PNone 0,
                                    example_field ''uan_number'' PNone 0])
   \<and> map (field_value \<circ> snd)
        (result_fields (example_llm_result True [example_field ''member_name'' PNone 0,
                                                 example_field ''uan_number'' PNone 0]))
       = [PNone, PNone]
   \<and> overall_confidence (finish_processing example_builtins (4/5) ''doc'' ''scan.png'' 12
        (Inr (UANCardTemplate,
              example_llm_result True [example_field ''member_name'' PNone 0,
                                       example_field ''uan_number'' PNone 0],
              None))) = 0
   \<and> status (finish_processing example_builtins (4/5) ''doc'' ''scan.png'' 12
        (Inr (UANCardTemplate,
              example_llm_result True [example_field ''member_name'' PNone 0,
                                       example_field ''uan_number'' PNone 0],
              None))) = REQUIRES_REVIEW
   \<and> map code (errors (finish_processing example_builtins (4/5) ''doc'' ''scan.png'' 12
        (Inr (UANCardTemplate,
              example_llm_result True [example_field ''member_name'' PNone 0,
                                       example_field ''uan_number'' PNone 0],
              None))))
       = [''VALIDATION_ERROR'', ''VALIDATION_ERROR'', ''VALIDATION_ERROR'']
   \<and> ''LOW_CONFIDENCE'' \<notin> set (map code
        (errors (finish_processing example_builtins (4/5) ''doc'' ''scan.png'' 12
          (Inr (UANCardTemplate,
                example_llm_result True [example_field ''member_name'' PNone 0,
                                         example_field ''uan_number'' PNone 0],
                None)))))"
  unfolding uan_null_response
  by (simp add: example_llm_result_def example_field_def)

subsection \<open>Field names and field confidences of a response\<close>








lemma if_set_keys:
  assumes "\<And>v p'. map_of p k = Some v \<Longrightarrow> body v p = Inr p' \<Longrightarrow> fst ` set p' = fst ` set p"
      and "if_set k body p = Inr p'"
  shows "fst ` set p' = fst ` set p"
  using assms by (auto simp: if_set_def split: option.splits if_splits)


















subsection \<open>Malformed LLM responses\<close>

text \<open>
  Where no JSON object is found, or the located text does not decode, the result is
  unsuccessful, keeps the raw response and has an error message.
\<close>

lemma parse_failures_keep_raw:
  assumes "json_match response = None
         \<or> (\<exists>m msg. json_match response = Some m \<and> json_loads B m = Inl msg)"
  shows "\<exists>result. parse_response B response doc_type = Inr result
           \<and> \<not> success result \<and> raw_response result = response \<and> error result \<noteq> []"
  using assms by (auto simp: parse_response_def)

lemma example_match: "json_match example_response_text = Some example_response_text"
  by (simp add: json_match_def example_response_text_def)

text \<open>
  Claim C5 says that a response whose JSON object carries an ill-typed field entry
  yields an unsuccessful result with the raw response kept, and that no exception
  escapes. The code misses this case. The reply
  \<^verbatim>\<open>{"fields": {"full_name": {"value": "A", "confidence": "high"}}}\<close> decodes, then
  \<open>float("high")\<close> raises a \<open>ValueError\<close>, which the handler of \<open>_parse_response\<close>
  (for \<open>JSONDecodeError\<close> only) does not catch: the exception leaves
  \<open>_parse_response\<close>. The catch-all handler of \<open>OllamaExtractor.extract\<close> turns it
  into an unsuccessful result with an error message, but with an empty \<open>raw_response\<close>.
\<close>

theorem ill_typed_confidence_loses_raw_response:
  "json_match example_response_text = Some example_response_text
   \<and> json_loads example_builtins example_response_text
       = Inr (PDict [(''fields'', PDict [(''full_name'',
                PDict [(''value'', PStr ''A''), (''confidence'', PStr ''high'')])])])
   \<and> parse_response example_builtins example_response_text ''id_document''
       = Inl (ValueError (''could not convert string to float: '' @ [CHR 0x27] @ ''high''
                            @ [CHR 0x27]))
   \<and> success (ollama_extract example_builtins ''llama3.2'' (Inr example_response_text)
                 ''id_document'') = False
   \<and> raw_response (ollama_extract example_builtins ''llama3.2''
                      (Inr example_response_text) ''id_document'') = []
   \<and> example_response_text \<noteq> []
   \<and> error (ollama_extract example_builtins ''llama3.2'' (Inr example_response_text)
               ''id_document'')
       = ''Ollama error: could not convert string to float: '' @ [CHR 0x27] @ ''high''
           @ [CHR 0x27]"
proof -
  have loads: "json_loads example_builtins example_response_text
       = Inr (PDict [(''fields'', PDict [(''full_name'',
                PDict [(''value'', PStr ''A''), (''confidence'', PStr ''high'')])])])"
    by (simp add: example_builtins_def)
  have high: "float_of_str example_builtins ''high'' = None"
    by (simp add: example_builtins_def)
  have parse: "parse_response example_builtins example_response_text ''id_document''
       = Inl (ValueError (''could not convert string to float: '' @ [CHR 0x27] @ ''high''
                            @ [CHR 0x27]))"
    by (simp add: parse_response_def example_match loads dict_get_def high)
  have ne: "example_response_text \<noteq> []" by (simp add: example_response_text_def)
  show ?thesis
    using example_match loads ne by (simp add: ollama_extract_def parse)
qed

end
